theory Spec2Isabelle
  imports Complex_Main "HOL-Library.Log_Nat"
begin

section \<open>JavaScript values used by the application\<close>

text \<open>
  A finite JavaScript number is a double, modelled by the rational it denotes; the
  arithmetic on doubles rounds its exact result to the nearest double, a tie going to the
  even significand (IEEE 754, binary64). A value that may be \<open>null\<close> or \<open>undefined\<close> is an
  \<open>option\<close>; the source never tells the two apart on the fields modelled here
  (\<open>!= null\<close> holds for neither, \<open>undefined < 1\<close> and \<open>undefined === 1\<close> are both false).
\<close>

type_synonym number = rat

text \<open>The exponent \<open>e\<close> of a positive rational: \<open>2 ^ e \<le> a < 2 ^ (e + 1)\<close>.\<close>

definition binade :: "rat \<Rightarrow> int" where
  "binade a =
     (case quotient_of a of (p, q) \<Rightarrow>
        let d = bitlen p - bitlen q in if 2 powi d \<le> a then d else d - 1)"

text \<open>Rounding to the nearest integer, a tie going to the even one.\<close>

definition round_half_even :: "rat \<Rightarrow> int" where
  "round_half_even y =
     (let f = \<lfloor>y\<rfloor>; r = y - of_int f
      in if r < 1 / 2 then f else if 1 / 2 < r then f + 1 else if even f then f else f + 1)"

text \<open>
  The distance between neighbouring doubles at a positive rational: 52 fraction bits below
  its exponent, and the fixed spacing of the subnormal numbers below \<open>2 ^ - 1022\<close>.
\<close>

definition double_quantum :: "rat \<Rightarrow> rat" where
  "double_quantum a = 2 powi (max (binade a) (- 1022) - 52)"

text \<open>
  The double nearest to a rational, were the exponent range unbounded above. It is what a
  decimal literal denotes, and the result of an operation on doubles that stays in range.
\<close>

definition nearest_double :: "rat \<Rightarrow> rat" where
  "nearest_double x =
     (if x = 0 then 0
      else sgn x * (of_int (round_half_even (\<bar>x\<bar> / double_quantum \<bar>x\<bar>))
                     * double_quantum \<bar>x\<bar>))"

text \<open>The result of an operation on finite doubles: a finite double, or an infinity.\<close>

datatype js_number = Num rat | PosInfinity | NegInfinity

definition to_double :: "rat \<Rightarrow> js_number" where
  "to_double x =
     (if 2 ^ 1024 \<le> nearest_double x then PosInfinity
      else if nearest_double x \<le> - (2 ^ 1024) then NegInfinity
      else Num (nearest_double x))"

text \<open>The product \<open>x * y\<close> of two finite doubles.\<close>

definition js_times :: "number \<Rightarrow> number \<Rightarrow> js_number" where
  "js_times x y = to_double (x * y)"

text \<open>\<open>Math.round\<close>: the nearest integer, a tie going up; an infinity is kept.\<close>

fun Math_round :: "js_number \<Rightarrow> js_number" where
  "Math_round (Num x) = Num (of_int \<lfloor>x + 1 / 2\<rfloor>)"
| "Math_round PosInfinity = PosInfinity"
| "Math_round NegInfinity = NegInfinity"

text \<open>The comparison \<open>x >= y\<close> of such a result with a finite double.\<close>

fun js_ge :: "js_number \<Rightarrow> number \<Rightarrow> bool" where
  "js_ge (Num x) y = (y \<le> x)"
| "js_ge PosInfinity y = True"
| "js_ge NegInfinity y = False"

text \<open>\<open>String.prototype.startsWith\<close> and \<open>String.prototype.includes\<close>.\<close>

definition startsWith :: "string \<Rightarrow> string \<Rightarrow> bool" where
  "startsWith s p = (take (length p) s = p)"

fun str_includes :: "string \<Rightarrow> string \<Rightarrow> bool" where
  "str_includes [] sub = (sub = [])"
| "str_includes (c # cs) sub = (startsWith (c # cs) sub \<or> str_includes cs sub)"

text \<open>
  A character of a string is a code unit below 256. \<open>String.prototype.trim\<close> strips the
  white space and the line terminators; among these code units they are the tab, the line
  feed, the vertical tab, the form feed, the carriage return, the space and the no-break
  space \<open>U+00A0\<close>. (The others, \<open>U+1680\<close>, \<open>U+2000\<close> to \<open>U+200A\<close>, \<open>U+2028\<close>, \<open>U+2029\<close>,
  \<open>U+202F\<close>, \<open>U+205F\<close>, \<open>U+3000\<close> and \<open>U+FEFF\<close>, are no such code units.)
\<close>

definition is_ws :: "char \<Rightarrow> bool" where
  "is_ws c =
     (c \<in> set [CHR 0x09, CHR 0x0A, CHR 0x0B, CHR 0x0C, CHR 0x0D, CHR '' '', CHR 0xA0])"

definition trim :: "string \<Rightarrow> string" where
  "trim s = rev (dropWhile is_ws (rev (dropWhile is_ws s)))"

section \<open>components/DiagnosticsDisplay.tsx\<close>

subsection \<open>The report objects of the audit engine\<close>

record audit =
  audit_id :: string
  title :: string
  description :: "string option"
  score :: "number option"
  scoreDisplayMode :: string
  displayValue :: "string option"

record auditRef =
  ref_id :: string

record category =
  cat_id :: string
  cat_title :: string
  cat_score :: "number option"
  auditRefs :: "auditRef list option"

subsection \<open>AuditItem\<close>

datatype icon = InformationCircleIcon | CheckCircleIcon | LightBulbIcon | ExclamationTriangleIcon

record audit_row =
  row_audit :: audit
  row_icon :: icon
  iconColor :: string
  titleColor :: string

definition audit_icon :: "audit \<Rightarrow> bool \<Rightarrow> icon \<times> string \<times> string" where
  "audit_icon a isPassed =
     (if isPassed then (CheckCircleIcon, ''text-green-500'', ''text-slate-600'')
      else if scoreDisplayMode a = ''opportunity''
        then (LightBulbIcon, ''text-yellow-600'', ''text-slate-700'')
      else (case score a of
          Some s \<Rightarrow>
            (if s \<ge> nearest_double (9 / 10) then (CheckCircleIcon, ''text-green-500'', ''text-slate-700'')
             else if s \<ge> 1 / 2 then (ExclamationTriangleIcon, ''text-yellow-500'', ''text-slate-700'')
             else (ExclamationTriangleIcon, ''text-red-600'', ''text-slate-700''))
        | None \<Rightarrow>
            (if scoreDisplayMode a = ''manual''
             then (InformationCircleIcon, ''text-blue-500'', ''text-slate-700'')
             else (InformationCircleIcon, ''text-slate-500'', ''text-slate-700''))))"

text \<open>The component returns \<open>null\<close> (no row) for a not-applicable or error audit.\<close>

definition AuditItem :: "audit \<Rightarrow> bool \<Rightarrow> audit_row option" where
  "AuditItem a isPassed =
     (if scoreDisplayMode a = ''notApplicable'' \<or> scoreDisplayMode a = ''error'' then None
      else (case audit_icon a isPassed of (i, ic, tc) \<Rightarrow>
        Some \<lparr>row_audit = a, row_icon = i, iconColor = ic, titleColor = tc\<rparr>))"

subsection \<open>CategorySection\<close>

text \<open>
  \<open>category.auditRefs.map(ref => allAudits[ref.id]).filter(audit => audit && ...)\<close>:
  a reference to an audit missing from the map gives \<open>undefined\<close>, which the filter drops.
\<close>

definition relevantAudits :: "auditRef list \<Rightarrow> (string \<rightharpoonup> audit) \<Rightarrow> audit list" where
  "relevantAudits refs allAudits =
     filter (\<lambda>a. scoreDisplayMode a \<noteq> ''notApplicable'' \<and> scoreDisplayMode a \<noteq> ''error'')
       (List.map_filter (\<lambda>r. allAudits (ref_id r)) refs)"

definition opportunitiesAndDiagnostics :: "audit list \<Rightarrow> audit list" where
  "opportunitiesAndDiagnostics rel =
     filter (\<lambda>a. (case score a of None \<Rightarrow> False | Some s \<Rightarrow> s < 1)
                 \<and> scoreDisplayMode a \<noteq> ''manual'') rel"

definition manualChecks :: "audit list \<Rightarrow> audit list" where
  "manualChecks rel = filter (\<lambda>a. scoreDisplayMode a = ''manual'') rel"

definition passedAudits :: "audit list \<Rightarrow> audit list" where
  "passedAudits rel =
     filter (\<lambda>a. score a = Some 1 \<and> scoreDisplayMode a \<noteq> ''manual''
                 \<and> scoreDisplayMode a \<noteq> ''informative'') rel"

text \<open>The score shown in the gauge of a category section (and absent when there is none).\<close>

definition categoryScore :: "category \<Rightarrow> js_number option" where
  "categoryScore c =
     (case cat_score c of Some s \<Rightarrow> Some (Math_round (js_times s 100)) | None \<Rightarrow> None)"

definition gauge_color :: "js_number \<Rightarrow> string" where
  "gauge_color n =
     (if js_ge n 90 then ''text-green-500'' else if js_ge n 50 then ''text-yellow-500''
      else ''text-red-500'')"

record section_view =
  sec_category :: category
  sec_score :: "js_number option"
  sec_opportunities :: "audit list"
  sec_manual :: "audit list"
  sec_passed :: "audit list"

text \<open>
  A section is \<open>None\<close> when the component returns \<open>null\<close>: the category has no audit
  references, its id is \<open>pwa\<close>, or the three buckets are all empty.
\<close>

definition CategorySection :: "category \<Rightarrow> (string \<rightharpoonup> audit) \<Rightarrow> section_view option" where
  "CategorySection c allAudits =
     (case auditRefs c of
        None \<Rightarrow> None
      | Some refs \<Rightarrow>
          if cat_id c = ''pwa'' then None
          else
            let rel = relevantAudits refs allAudits;
                opp = opportunitiesAndDiagnostics rel;
                man = manualChecks rel;
                pas = passedAudits rel
            in if length opp = 0 \<and> length man = 0 \<and> length pas = 0 then None
               else Some \<lparr>sec_category = c, sec_score = categoryScore c,
                          sec_opportunities = opp, sec_manual = man, sec_passed = pas\<rparr>)"

text \<open>
  The rows a section shows: the opportunities always, the manual checks and the passed
  audits when their lists are unfolded (\<open>showManual\<close>, \<open>showPassed\<close>).
\<close>

definition section_rows :: "bool \<Rightarrow> bool \<Rightarrow> section_view \<Rightarrow> audit_row list" where
  "section_rows showManual showPassed s =
     List.map_filter (\<lambda>a. AuditItem a False) (sec_opportunities s)
     @ (if showManual then List.map_filter (\<lambda>a. AuditItem a False) (sec_manual s) else [])
     @ (if showPassed then List.map_filter (\<lambda>a. AuditItem a True) (sec_passed s) else [])"

subsection \<open>DiagnosticsDisplay\<close>

definition categoryDisplayOrder :: "string list" where
  "categoryDisplayOrder = [''performance'', ''accessibility'', ''best-practices'', ''seo'']"

text \<open>
  One entry for each identifier of the display order: the section of the category stored
  under that key, or nothing. Without a categories or an audits object the component
  shows a placeholder paragraph and no section.
\<close>

definition DiagnosticsDisplay ::
  "(string \<rightharpoonup> category) option \<Rightarrow> (string \<rightharpoonup> audit) option \<Rightarrow> (string \<times> section_view) list" where
  "DiagnosticsDisplay categories audits =
     (case (categories, audits) of
        (Some cs, Some as) \<Rightarrow>
          List.map_filter
            (\<lambda>categoryId. case cs categoryId of
                 None \<Rightarrow> None
               | Some c \<Rightarrow> map_option (Pair categoryId) (CategorySection c as))
            categoryDisplayOrder
      | _ \<Rightarrow> [])"

section \<open>pages/api/analyze.ts\<close>

subsection \<open>Sessions, requests and the outcomes of awaited calls\<close>

record user =
  user_id :: "string option"

record session =
  session_user :: "user option"

text \<open>An awaited call of a library either returns or throws an error with a message.\<close>

datatype 'a outcome = Throws string | Returns 'a

record analyze_body =
  body_url :: "string option"
  body_strategy :: "string option"

record analyze_request =
  req_method :: string
  req_body :: analyze_body

record throttling =
  rttMs :: number
  throughputKbps :: number
  requestLatencyMs :: number
  downloadThroughputKbps :: number
  uploadThroughputKbps :: number
  cpuSlowdownMultiplier :: number

record screenEmulation =
  mobile :: bool
  width :: nat
  height :: nat
  deviceScaleFactor :: nat

record lighthouseSettings =
  formFactor :: string
  throttlingMethod :: string
  throttling_settings :: throttling
  screen :: screenEmulation
  onlyCategories :: "string list"

record lhr =
  lhr_categories :: "string \<rightharpoonup> category"
  lhr_audits :: "string \<rightharpoonup> audit"
  lhr_finalUrl :: string
  lhr_lighthouseVersion :: string
  lhr_fetchTime :: string

text \<open>
  What the handler's collaborators do during one request: the session lookup, zod's URL
  check, \<open>puppeteer.launch\<close>, the port of the browser's endpoint, the audit engine (its
  result has a report or none), \<open>prisma.report.create\<close>, and \<open>browser.close\<close> at its
  first, second, ... call.
\<close>

record analyze_env =
  getServerSession :: "session option"
  zod_is_url :: "string \<Rightarrow> bool"
  puppeteer_launch :: "unit outcome"
  endpoint_port :: "string outcome"
  lighthouse :: "string \<Rightarrow> string \<Rightarrow> lighthouseSettings \<Rightarrow> lhr option outcome"
  report_create :: "unit outcome"
  browser_close :: "nat \<Rightarrow> unit outcome"

subsection \<open>Responses and observable events\<close>

record FullLighthouseDetails =
  fl_categories :: "string \<rightharpoonup> category"
  fl_audits :: "string \<rightharpoonup> audit"
  fl_finalUrl :: string
  fl_lighthouseVersion :: string
  fl_fetchTime :: string

record ApiAnalyzeResponseData =
  res_url :: string
  res_strategy :: string
  performanceScore :: "js_number option"
  accessibilityScore :: "js_number option"
  bestPracticesScore :: "js_number option"
  seoScore :: "js_number option"
  pwaScore :: "js_number option"
  fullLighthouseDetails :: "FullLighthouseDetails option"

record report_data =
  rep_url :: string
  rep_strategy :: string
  rep_performanceScore :: "js_number option"
  rep_accessibilityScore :: "js_number option"
  rep_bestPracticesScore :: "js_number option"
  rep_seoScore :: "js_number option"
  rep_pwaScore :: "js_number option"
  rep_metrics :: "string \<rightharpoonup> category"
  rep_userId :: string

datatype issue = UrlRequired | InvalidUrl | StrategyRequired | InvalidStrategy

text \<open>What a \<open>throw\<close> carries: zod's validation error, or an error with a message.\<close>

datatype thrown = ZodError "issue list" | Error string

text \<open>The JSON bodies the handler sends, with their status codes.\<close>

datatype analyze_response =
    MethodNotAllowed
  | ValidationFailed "issue list"
  | ServerError string "string option"
  | AnalyzeOk ApiAnalyzeResponseData

fun status_code :: "analyze_response \<Rightarrow> nat" where
  "status_code MethodNotAllowed = 405"
| "status_code (ValidationFailed _) = 400"
| "status_code (ServerError _ _) = 500"
| "status_code (AnalyzeOk _) = 200"

text \<open>
  The events of one request, in order: the browser launched, \<open>browser.close\<close> called
  (with whether it returned), a report row created, a \<open>console.error\<close> line (named by
  what it reports), the response sent. The \<open>console.log\<close> lines are left out.
\<close>

datatype log_line =
    PortNotFound | LighthouseThrew string | NoReport | SaveFailed string
  | CriticalError thrown | CloseFailed string

datatype event =
    BrowserLaunched
  | BrowserClose bool
  | ReportCreated report_data
  | ConsoleError log_line
  | Responded nat

subsection \<open>The handler\<close>

text \<open>\<open>session?.user ? session.user.id : null\<close>.\<close>

definition session_userId :: "session option \<Rightarrow> string option" where
  "session_userId s =
     (case s of None \<Rightarrow> None
      | Some ss \<Rightarrow> (case session_user ss of None \<Rightarrow> None | Some u \<Rightarrow> user_id u))"

text \<open>A string that may be missing is truthy when it is there and not empty.\<close>

definition truthy :: "string option \<Rightarrow> bool" where
  "truthy v = (case v of None \<Rightarrow> False | Some s \<Rightarrow> s \<noteq> [])"

text \<open>
  \<open>analyzeSchema.parse\<close>: the URL must be a string that zod accepts as a URL, the
  strategy one of \<open>desktop\<close> and \<open>mobile\<close>; all the issues are collected.
\<close>

definition analyzeSchema_parse ::
  "(string \<Rightarrow> bool) \<Rightarrow> analyze_body \<Rightarrow> issue list + (string \<times> string)" where
  "analyzeSchema_parse is_url b =
     (let url_issues = (case body_url b of None \<Rightarrow> [UrlRequired]
                        | Some u \<Rightarrow> if is_url u then [] else [InvalidUrl]);
          strategy_issues = (case body_strategy b of None \<Rightarrow> [StrategyRequired]
                        | Some s \<Rightarrow> if s = ''desktop'' \<or> s = ''mobile'' then []
                                    else [InvalidStrategy])
      in case (body_url b, body_strategy b) of
           (Some u, Some s) \<Rightarrow>
             if url_issues @ strategy_issues = [] then Inr (u, s)
             else Inl (url_issues @ strategy_issues)
         | _ \<Rightarrow> Inl (url_issues @ strategy_issues))"

definition currentCategories :: "string list" where
  "currentCategories = [''performance'', ''accessibility'', ''best-practices'', ''seo'', ''pwa'']"

definition lighthouseConfig :: "string \<Rightarrow> lighthouseSettings" where
  "lighthouseConfig strategy =
     \<lparr>formFactor = strategy,
      throttlingMethod = ''simulate'',
      throttling_settings =
        (if strategy = ''mobile''
         then \<lparr>rttMs = 150,
               throughputKbps = nearest_double (nearest_double (16 / 10) * 1024),
               requestLatencyMs = nearest_double (150 * nearest_double (4 / 10)),
               downloadThroughputKbps =
                 nearest_double (nearest_double (nearest_double (16 / 10) * 1024)
                                 * nearest_double (9 / 10)),
               uploadThroughputKbps = nearest_double (750 * nearest_double (9 / 10)),
               cpuSlowdownMultiplier = 4\<rparr>
         else \<lparr>rttMs = 100, throughputKbps = 5 * 1024, requestLatencyMs = 0,
               downloadThroughputKbps = 0, uploadThroughputKbps = 0,
               cpuSlowdownMultiplier = 2\<rparr>),
      screen =
        (if strategy = ''mobile''
         then \<lparr>mobile = True, width = 360, height = 640, deviceScaleFactor = 2\<rparr>
         else \<lparr>mobile = False, width = 1280, height = 720, deviceScaleFactor = 1\<rparr>),
      onlyCategories = currentCategories\<rparr>"

text \<open>
  \<open>lhr.categories[key]?.score != null ? Math.round(lhr.categories[key].score * 100) : null\<close>,
  which the handler writes out once for each of its five keys.
\<close>

definition normalized_score :: "(string \<rightharpoonup> category) \<Rightarrow> string \<Rightarrow> js_number option" where
  "normalized_score cats key =
     (case cats key of
        None \<Rightarrow> None
      | Some c \<Rightarrow> (case cat_score c of None \<Rightarrow> None
                   | Some s \<Rightarrow> Some (Math_round (js_times s 100))))"

definition responseData :: "string \<Rightarrow> string \<Rightarrow> lhr \<Rightarrow> ApiAnalyzeResponseData" where
  "responseData url strategy r =
     \<lparr>res_url = url,
      res_strategy = strategy,
      performanceScore = normalized_score (lhr_categories r) ''performance'',
      accessibilityScore = normalized_score (lhr_categories r) ''accessibility'',
      bestPracticesScore = normalized_score (lhr_categories r) ''best-practices'',
      seoScore = normalized_score (lhr_categories r) ''seo'',
      pwaScore = normalized_score (lhr_categories r) ''pwa'',
      fullLighthouseDetails = Some
        \<lparr>fl_categories = lhr_categories r, fl_audits = lhr_audits r,
         fl_finalUrl = lhr_finalUrl r, fl_lighthouseVersion = lhr_lighthouseVersion r,
         fl_fetchTime = lhr_fetchTime r\<rparr>\<rparr>"

text \<open>The inner \<open>try\<close> around the engine, and the check that it produced a report.\<close>

definition run_lighthouse ::
  "analyze_env \<Rightarrow> string \<Rightarrow> string \<Rightarrow> string \<Rightarrow> (thrown + lhr) \<times> event list" where
  "run_lighthouse env url strategy port =
     (case lighthouse env url port (lighthouseConfig strategy) of
        Throws msg \<Rightarrow>
          (Inl (Error
             (if str_includes msg ''performance mark has not been set''
              then ''Lighthouse failed early (Strategy: '' @ strategy @ '') for URL: '' @ url
                   @ ''. Site may be incompatible. Original: '' @ msg
              else msg)),
           [ConsoleError (LighthouseThrew msg)])
      | Returns None \<Rightarrow>
          (Inl (Error ''Lighthouse analysis failed to produce a report.''),
           [ConsoleError NoReport])
      | Returns (Some r) \<Rightarrow> (Inr r, []))"

text \<open>
  \<open>if (userId) { try { await prisma.report.create(...) } catch (dbError) { console.error(...) } }\<close>
\<close>

definition save_report ::
  "analyze_env \<Rightarrow> string option \<Rightarrow> ApiAnalyzeResponseData \<Rightarrow> (string \<rightharpoonup> category) \<Rightarrow> event list" where
  "save_report env userId d cats =
     (case userId of
        None \<Rightarrow> []
      | Some uid \<Rightarrow>
          if uid = [] then []
          else (case report_create env of
                  Returns _ \<Rightarrow>
                    [ReportCreated
                       \<lparr>rep_url = res_url d, rep_strategy = res_strategy d,
                        rep_performanceScore = performanceScore d,
                        rep_accessibilityScore = accessibilityScore d,
                        rep_bestPracticesScore = bestPracticesScore d,
                        rep_seoScore = seoScore d, rep_pwaScore = pwaScore d,
                        rep_metrics = cats, rep_userId = uid\<rparr>]
                | Throws m \<Rightarrow> [ConsoleError (SaveFailed m)]))"

text \<open>
  The body of the outer \<open>try\<close>: what it returns or throws, the events so far, whether the
  variable \<open>browser\<close> holds a browser, and how often \<open>browser.close\<close> has been called.
\<close>

definition try_block ::
  "analyze_env \<Rightarrow> analyze_request \<Rightarrow> (thrown + analyze_response) \<times> event list \<times> bool \<times> nat" where
  "try_block env req =
     (case analyzeSchema_parse (zod_is_url env) (req_body req) of
        Inl issues \<Rightarrow> (Inl (ZodError issues), [], False, 0)
      | Inr (url, strategy) \<Rightarrow>
          (case puppeteer_launch env of
             Throws m \<Rightarrow> (Inl (Error m), [], False, 0)
           | Returns _ \<Rightarrow>
               (case endpoint_port env of
                  Throws m \<Rightarrow> (Inl (Error m), [BrowserLaunched], True, 0)
                | Returns port \<Rightarrow>
                    if port = [] then
                      (case browser_close env 0 of
                         Throws m \<Rightarrow>
                           (Inl (Error m),
                            [BrowserLaunched, ConsoleError PortNotFound, BrowserClose False],
                            True, 1)
                       | Returns _ \<Rightarrow>
                           (Inr (ServerError
                                   ''Internal server error: Puppeteer port not found.'' None),
                            [BrowserLaunched, ConsoleError PortNotFound, BrowserClose True,
                             Responded 500],
                            True, 1))
                    else
                      (case run_lighthouse env url strategy port of
                         (Inl e, evs) \<Rightarrow> (Inl e, BrowserLaunched # evs, True, 0)
                       | (Inr r, evs) \<Rightarrow>
                           (Inr (AnalyzeOk (responseData url strategy r)),
                            BrowserLaunched # evs
                              @ save_report env (session_userId (getServerSession env))
                                  (responseData url strategy r) (lhr_categories r)
                              @ [Responded 200],
                            True, 0)))))"

definition errorDetails :: "string \<Rightarrow> string \<Rightarrow> string \<Rightarrow> string" where
  "errorDetails R_URL R_STRATEGY msg =
     (if msg = [] then ''Failed to perform Lighthouse analysis for '' @ R_STRATEGY @ ''.''
      else if str_includes msg ''ERR_NAME_NOT_RESOLVED'' \<or> str_includes msg ''ECONNREFUSED''
        then ''Could not resolve/connect to URL: '' @ R_URL @ ''. Check URL & site status.''
      else if str_includes msg ''Protocol error'' \<and> str_includes msg ''Target closed''
        then ''Browser tab crashed/closed for URL: '' @ R_URL @ ''.''
      else if str_includes msg ''Failed to launch the browser process''
        then ''Failed to launch browser. Check server logs for Puppeteer/Chrome issues.''
      else if str_includes msg ''performance mark has not been set''
              \<or> str_includes msg ''Lighthouse failed early''
              \<or> str_includes msg ''Lighthouse analysis failed to produce a report''
        then msg
      else ''An unexpected error occurred: '' @ msg)"

definition catch_block :: "analyze_request \<Rightarrow> thrown \<Rightarrow> analyze_response \<times> event list" where
  "catch_block req err =
     (let R_URL = (case body_url (req_body req) of Some u \<Rightarrow> u | None \<Rightarrow> ''unknown'');
          R_STRATEGY = (case body_strategy (req_body req) of Some s \<Rightarrow> s | None \<Rightarrow> ''unknown'')
      in case err of
           ZodError issues \<Rightarrow>
             (ValidationFailed issues, [ConsoleError (CriticalError err), Responded 400])
         | Error msg \<Rightarrow>
             (ServerError (''Error during Lighthouse analysis for '' @ R_STRATEGY @ ''.'')
                (Some (errorDetails R_URL R_STRATEGY msg)),
              [ConsoleError (CriticalError err), Responded 500]))"

definition finally_block :: "analyze_env \<Rightarrow> bool \<Rightarrow> nat \<Rightarrow> event list" where
  "finally_block env browser n =
     (if browser then
        (case browser_close env n of
           Returns _ \<Rightarrow> [BrowserClose True]
         | Throws m \<Rightarrow> [BrowserClose False, ConsoleError (CloseFailed m)])
      else [])"

text \<open>The response of the handler and the events of the request, up to its return.\<close>

definition analyze_handler ::
  "analyze_env \<Rightarrow> analyze_request \<Rightarrow> analyze_response \<times> event list" where
  "analyze_handler env req =
     (if req_method req \<noteq> ''POST'' then (MethodNotAllowed, [Responded 405])
      else
        (case try_block env req of
           (Inr r, evs, browser, n) \<Rightarrow> (r, evs @ finally_block env browser n)
         | (Inl e, evs, browser, n) \<Rightarrow>
             (case catch_block req e of
                (r, cevs) \<Rightarrow> (r, evs @ cevs @ finally_block env browser n))))"

section \<open>pages/api/reports.ts\<close>

text \<open>A stored report: the data the analysis wrote, with the row's id and creation time.\<close>

record stored_report = report_data +
  rep_id :: string
  createdAt :: nat

datatype reports_response =
    ReportsMethodNotAllowed
  | Unauthorized
  | ReportsOk "stored_report list"
  | ReportsError

fun reports_status :: "reports_response \<Rightarrow> nat" where
  "reports_status ReportsMethodNotAllowed = 405"
| "reports_status Unauthorized = 401"
| "reports_status (ReportsOk _) = 200"
| "reports_status ReportsError = 500"

text \<open>The report rows in a response body; the error bodies hold a message only.\<close>

fun reports_rows :: "reports_response \<Rightarrow> stored_report list" where
  "reports_rows (ReportsOk rows) = rows"
| "reports_rows _ = []"

text \<open>
  \<open>prisma.report.findMany({ where: { userId }, orderBy: { createdAt: 'desc' }, take: 20 })\<close>
  on the rows of the table.
\<close>

definition findMany :: "string \<Rightarrow> stored_report list \<Rightarrow> stored_report list" where
  "findMany userId table =
     take 20 (rev (sort_key createdAt (filter (\<lambda>r. rep_userId r = userId) table)))"

text \<open>The session of the request, and the table (or the error the query throws).\<close>

record reports_env =
  reports_session :: "session option"
  report_table :: "stored_report list outcome"

definition reports_handler :: "reports_env \<Rightarrow> string \<Rightarrow> reports_response" where
  "reports_handler env method =
     (if method \<noteq> ''GET'' then ReportsMethodNotAllowed
      else (case session_userId (reports_session env) of
              None \<Rightarrow> Unauthorized
            | Some userId \<Rightarrow>
                if userId = [] then Unauthorized
                else (case report_table env of
                        Returns table \<Rightarrow> ReportsOk (findMany userId table)
                      | Throws _ \<Rightarrow> ReportsError)))"

section \<open>pages/api/security-scan.ts\<close>

datatype status =
  Pass | Fail | Warn | Info | Clean | Infected | Not_blacklisted | Blacklisted

record SecurityCheckItem =
  item_check :: "string option"
  item_text :: "string option"
  item_status :: status
  item_message :: "string option"
  item_details :: "string option"

definition createCheckItem ::
  "string \<Rightarrow> status \<Rightarrow> string option \<Rightarrow> string option \<Rightarrow> bool \<Rightarrow> SecurityCheckItem" where
  "createCheckItem identifier st msg det isSummaryItem =
     (if isSummaryItem
      then \<lparr>item_check = None, item_text = Some identifier, item_status = st,
            item_message = None, item_details = msg\<rparr>
      else \<lparr>item_check = Some identifier, item_text = Some identifier, item_status = st,
            item_message = Some (case msg of Some m \<Rightarrow> m | None \<Rightarrow> []),
            item_details = det\<rparr>)"

datatype risk = Minimal | Low | Medium | High | Critical

datatype severity = good | warning | danger | info

text \<open>
  The collaborators of one scan: zod's URL check, the protocol the \<open>URL\<close> constructor
  reads (none when it throws), and the response headers of the fetch (or its error).
\<close>

record scan_env =
  scan_is_url :: "string \<Rightarrow> bool"
  URL_protocol :: "string \<Rightarrow> string option"
  axios_get :: "string \<Rightarrow> (string \<rightharpoonup> string) outcome"

text \<open>1. HTTPS check.\<close>

definition https_check :: "scan_env \<Rightarrow> string \<Rightarrow> SecurityCheckItem" where
  "https_check env targetUrl =
     (case URL_protocol env targetUrl of
        Some protocol \<Rightarrow>
          if protocol = ''https:''
          then createCheckItem ''HTTPS Usage'' Pass
                 (Some ''Site is served over a secure HTTPS connection.'') None False
          else createCheckItem ''HTTPS Usage'' Fail
                 (Some ''Site is not using HTTPS! This is a critical security vulnerability.'')
                 None False
      | None \<Rightarrow>
          createCheckItem ''URL Parsing'' Fail
            (Some ''The provided URL could not be parsed correctly.'') None False)"

text \<open>2. Basic header analysis.\<close>

definition header_checks :: "scan_env \<Rightarrow> string \<Rightarrow> SecurityCheckItem list" where
  "header_checks env targetUrl =
     (case axios_get env targetUrl of
        Returns headers \<Rightarrow>
          [createCheckItem ''Website Reachable'' Pass
             (Some ''Successfully connected to the website.'') None False,
           if truthy (headers ''content-security-policy'')
           then createCheckItem ''Content-Security-Policy (CSP)'' Pass
                  (Some ''CSP header is implemented.'') None False
           else createCheckItem ''Content-Security-Policy (CSP)'' Warn
                  (Some ''CSP header is missing.'') None False]
      | Throws m \<Rightarrow>
          [createCheckItem ''Website Fetch & Headers'' Fail
             (Some ''Could not connect to the website to analyze headers.'') (Some m) False])"

text \<open>The simulated malware and blacklist checks: the two lists' further items.\<close>

definition mock_checks :: "string \<Rightarrow> SecurityCheckItem list \<times> SecurityCheckItem list" where
  "mock_checks targetUrl =
     (if str_includes targetUrl ''malwareexample.com'' then
        ([createCheckItem ''JS.Trojan.Fake Found'' Infected
            (Some ''A known trojan signature was detected.'') None False],
         [createCheckItem ''ExampleBadGuysList'' Blacklisted
            (Some ''Reason: Distribution of malware.'') None False])
      else if str_includes targetUrl ''warningexample.com'' then
        ([createCheckItem ''Outdated jQuery Version'' Warn
            (Some ''Version 1.12.4 detected, which has known vulnerabilities.'') None False],
         [])
      else
        ([createCheckItem ''Generic Malware Scan'' Clean
            (Some ''No common malware signatures found.'') None False],
         [createCheckItem ''Google Safe Browsing'' Not_blacklisted
            (Some ''Domain clean.'') None False]))"

text \<open>The risk level, the severity and the status text, from the counts over all checks.\<close>

definition determine_risk :: "SecurityCheckItem list \<Rightarrow> risk \<times> severity \<times> string" where
  "determine_risk allChecks =
     (let criticalFailures =
            length (filter (\<lambda>r. item_status r = Infected \<or> item_status r = Blacklisted) allChecks);
          highRiskFailures = length (filter (\<lambda>r. item_status r = Fail) allChecks);
          warnings = length (filter (\<lambda>r. item_status r = Warn) allChecks)
      in if criticalFailures > 0 then
           (Critical, danger, ''CRITICAL security issues detected! Immediate attention required.'')
         else if highRiskFailures \<ge> 2 then
           (High, danger, ''High security risk. Multiple vulnerabilities or issues found.'')
         else if highRiskFailures = 1 \<or> warnings \<ge> 3 then
           (Medium, warning, ''Medium security risk. Some weaknesses or vulnerabilities present.'')
         else if warnings > 0 then
           (Low, warning, ''Low security risk. Minor potential weaknesses found.'')
         else
           (Minimal, good, ''Site passed basic security checks with minimal or no issues.''))"

text \<open>
  The payload of a scan. Its summaries, site information, date and fixed message take no
  part in the risk level and are left out.
\<close>

record ApiSecurityScanResponse =
  scan_url :: string
  overallStatusText :: string
  overallStatusSeverity :: severity
  securityRisk :: risk
  malwareAndSecurityDetails :: "SecurityCheckItem list"
  blacklistStatusDetails :: "SecurityCheckItem list"

datatype scan_response =
    ScanMethodNotAllowed
  | ScanValidationFailed
  | ScanOk ApiSecurityScanResponse

definition scan :: "scan_env \<Rightarrow> string \<Rightarrow> ApiSecurityScanResponse" where
  "scan env targetUrl =
     (let malwareAndSecurityItems =
            [https_check env targetUrl] @ header_checks env targetUrl @ fst (mock_checks targetUrl);
          blacklistItems = snd (mock_checks targetUrl);
          allChecks = malwareAndSecurityItems @ blacklistItems
      in case determine_risk allChecks of
           (calculatedRiskLevel, calculatedOverallSeverity, calculatedOverallStatusText) \<Rightarrow>
             \<lparr>scan_url = targetUrl,
              overallStatusText = calculatedOverallStatusText,
              overallStatusSeverity = calculatedOverallSeverity,
              securityRisk = calculatedRiskLevel,
              malwareAndSecurityDetails = malwareAndSecurityItems,
              blacklistStatusDetails = blacklistItems\<rparr>)"

text \<open>The handler: the method, \<open>scanSchema.parse\<close> on the body's URL, then the scan.\<close>

definition security_scan_handler :: "scan_env \<Rightarrow> string \<Rightarrow> string option \<Rightarrow> scan_response" where
  "security_scan_handler env method url =
     (if method \<noteq> ''POST'' then ScanMethodNotAllowed
      else (case url of
              None \<Rightarrow> ScanValidationFailed
            | Some u \<Rightarrow> if scan_is_url env u then ScanOk (scan env u) else ScanValidationFailed))"

section \<open>The form handlers of pages/security-checker.tsx and pages/index.tsx\<close>

text \<open>A request a form sends: its path, the URL in its body and a strategy, if any.\<close>

record post =
  post_path :: string
  post_url :: string
  post_strategy :: "string option"

text \<open>A submission sets a form error and sends nothing, or sends its requests in order.\<close>

datatype submit = FormError string | Posted "post list"

fun posts :: "submit \<Rightarrow> post list" where
  "posts (FormError _) = []"
| "posts (Posted ps) = ps"

text \<open>\<open>SecurityCheckerPage.handleSubmit\<close>, on the text of the URL field.\<close>

definition SecurityCheckerPage_handleSubmit :: "string \<Rightarrow> submit" where
  "SecurityCheckerPage_handleSubmit url =
     (let currentUrl = trim url in
      if currentUrl = [] then FormError ''Please enter a website URL to scan.''
      else
        let fullUrl = (if \<not> startsWith currentUrl ''http://'' \<and> \<not> startsWith currentUrl ''https://''
                       then ''https://'' @ currentUrl else currentUrl)
        in Posted [\<lparr>post_path = ''/api/security-scan'', post_url = fullUrl,
                     post_strategy = None\<rparr>])"

text \<open>
  \<open>HomePage.handleSubmit\<close>: the analysis form, which runs the mobile and then the desktop
  analysis.
\<close>

definition analyzeStrategy :: "string \<Rightarrow> string \<Rightarrow> post" where
  "analyzeStrategy strategyToAnalyze currentUrl =
     \<lparr>post_path = ''/api/analyze'', post_url = currentUrl,
      post_strategy = Some strategyToAnalyze\<rparr>"

definition HomePage_handleSubmit :: "string \<Rightarrow> submit" where
  "HomePage_handleSubmit url =
     (let currentUrl = trim url in
      if currentUrl = [] then FormError ''Please enter a URL.''
      else if \<not> startsWith currentUrl ''http://'' \<and> \<not> startsWith currentUrl ''https://''
        then FormError ''URL must start with http:// or https://''
      else Posted [analyzeStrategy ''mobile'' currentUrl, analyzeStrategy ''desktop'' currentUrl])"

section \<open>A sample report, requests and environments\<close>

definition ex_unused_css :: audit where
  "ex_unused_css = \<lparr>audit_id = ''unused-css'', title = ''Reduce unused CSS'',
     description = None, score = Some (1 / 2), scoreDisplayMode = ''numeric'',
     displayValue = Some ''Potential savings of 12 KiB''\<rparr>"

definition ex_manual_check :: audit where
  "ex_manual_check = \<lparr>audit_id = ''manual-check'', title = ''Check the tab order'',
     description = None, score = None, scoreDisplayMode = ''manual'', displayValue = None\<rparr>"

definition ex_viewport :: audit where
  "ex_viewport = \<lparr>audit_id = ''viewport'', title = ''Has a viewport'',
     description = None, score = Some 1, scoreDisplayMode = ''binary'', displayValue = None\<rparr>"

definition ex_not_applicable :: audit where
  "ex_not_applicable = \<lparr>audit_id = ''video-caption'', title = ''Videos have captions'',
     description = None, score = None, scoreDisplayMode = ''notApplicable'',
     displayValue = None\<rparr>"

definition ex_network :: audit where
  "ex_network = \<lparr>audit_id = ''network-requests'', title = ''Network requests'',
     description = None, score = None, scoreDisplayMode = ''informative'',
     displayValue = None\<rparr>"

definition ex_audits :: "string \<rightharpoonup> audit" where
  "ex_audits = map_of
     [(''unused-css'', ex_unused_css), (''manual-check'', ex_manual_check),
      (''viewport'', ex_viewport), (''video-caption'', ex_not_applicable),
      (''network-requests'', ex_network)]"

definition ex_refs :: "auditRef list" where
  "ex_refs = [\<lparr>ref_id = ''unused-css''\<rparr>, \<lparr>ref_id = ''manual-check''\<rparr>,
     \<lparr>ref_id = ''viewport''\<rparr>, \<lparr>ref_id = ''video-caption''\<rparr>,
     \<lparr>ref_id = ''network-requests''\<rparr>]"

definition ex_performance :: category where
  "ex_performance = \<lparr>cat_id = ''performance'', cat_title = ''Performance'',
     cat_score = Some (947 / 1000), auditRefs = Some ex_refs\<rparr>"

definition ex_pwa :: category where
  "ex_pwa = \<lparr>cat_id = ''pwa'', cat_title = ''PWA'', cat_score = Some (3 / 10),
     auditRefs = Some ex_refs\<rparr>"

definition ex_seo :: category where
  "ex_seo = \<lparr>cat_id = ''seo'', cat_title = ''SEO'', cat_score = None, auditRefs = None\<rparr>"

text \<open>A category whose score is the double that the literal \<open>0.015\<close> denotes.\<close>

definition ex_low :: category where
  "ex_low = \<lparr>cat_id = ''accessibility'', cat_title = ''Accessibility'',
     cat_score = Some (1080863910568919 / 72057594037927936), auditRefs = None\<rparr>"

text \<open>A category whose score is exactly one half.\<close>

definition ex_half :: category where
  "ex_half = \<lparr>cat_id = ''best-practices'', cat_title = ''Best Practices'',
     cat_score = Some (1 / 2), auditRefs = None\<rparr>"

definition ex_categories :: "string \<rightharpoonup> category" where
  "ex_categories = map_of
     [(''performance'', ex_performance), (''seo'', ex_seo), (''pwa'', ex_pwa)]"

definition ex_response :: ApiAnalyzeResponseData where
  "ex_response = \<lparr>res_url = ''https://example.com'', res_strategy = ''mobile'',
     performanceScore = Some (Num 95), accessibilityScore = None, bestPracticesScore = None,
     seoScore = None, pwaScore = Some (Num 30),
     fullLighthouseDetails = Some
       \<lparr>fl_categories = ex_categories, fl_audits = ex_audits,
        fl_finalUrl = ''https://example.com/'', fl_lighthouseVersion = ''10.0.0'',
        fl_fetchTime = ''2024-01-01T00:00:00.000Z''\<rparr>\<rparr>"

definition ex_section :: section_view where
  "ex_section = \<lparr>sec_category = ex_performance, sec_score = Some (Num 95),
     sec_opportunities = [ex_unused_css], sec_manual = [ex_manual_check],
     sec_passed = [ex_viewport]\<rparr>"

definition ex_lhr :: lhr where
  "ex_lhr = \<lparr>lhr_categories = ex_categories, lhr_audits = ex_audits,
     lhr_finalUrl = ''https://example.com/'', lhr_lighthouseVersion = ''10.0.0'',
     lhr_fetchTime = ''2024-01-01T00:00:00.000Z''\<rparr>"

definition ex_session :: session where
  "ex_session = \<lparr>session_user = Some \<lparr>user_id = Some ''user-1''\<rparr>\<rparr>"

text \<open>
  A signed-in user, a browser that launches and closes, an engine that returns the sample
  report, and a database whose insertion fails.
\<close>

definition ex_env :: analyze_env where
  "ex_env = \<lparr>getServerSession = Some ex_session,
     zod_is_url = (\<lambda>u. startsWith u ''http://'' \<or> startsWith u ''https://''),
     puppeteer_launch = Returns (),
     endpoint_port = Returns ''9222'',
     lighthouse = (\<lambda>url port settings. Returns (Some ex_lhr)),
     report_create = Throws ''connection refused'',
     browser_close = (\<lambda>n. Returns ())\<rparr>"



text \<open>The same, with a database that stores the row.\<close>

definition ex_env_saving :: analyze_env where
  "ex_env_saving = ex_env\<lparr>report_create := Returns ()\<rparr>"

definition ex_saved_row :: report_data where
  "ex_saved_row = \<lparr>rep_url = ''https://example.com'', rep_strategy = ''mobile'',
     rep_performanceScore = Some (Num 95), rep_accessibilityScore = None,
     rep_bestPracticesScore = None, rep_seoScore = None, rep_pwaScore = Some (Num 30),
     rep_metrics = ex_categories, rep_userId = ''user-1''\<rparr>"

definition ex_req :: analyze_request where
  "ex_req = \<lparr>req_method = ''POST'',
     req_body = \<lparr>body_url = Some ''https://example.com'', body_strategy = Some ''mobile''\<rparr>\<rparr>"

definition ex_row :: "string \<Rightarrow> string \<Rightarrow> nat \<Rightarrow> stored_report" where
  "ex_row ident owner t = \<lparr>rep_url = ''https://example.com'', rep_strategy = ''mobile'',
     rep_performanceScore = Some (Num 95), rep_accessibilityScore = None,
     rep_bestPracticesScore = None, rep_seoScore = None, rep_pwaScore = Some (Num 30),
     rep_metrics = ex_categories, rep_userId = owner, rep_id = ident, createdAt = t\<rparr>"

definition ex_table :: "stored_report list" where
  "ex_table = [ex_row ''r1'' ''user-1'' 10, ex_row ''r2'' ''user-2'' 20,
     ex_row ''r3'' ''user-1'' 30]"

definition ex_reports_env :: reports_env where
  "ex_reports_env = \<lparr>reports_session = Some ex_session, report_table = Returns ex_table\<rparr>"

definition ex_anonymous_env :: reports_env where
  "ex_anonymous_env = \<lparr>reports_session = None, report_table = Returns ex_table\<rparr>"

definition ex_scan_env :: scan_env where
  "ex_scan_env = \<lparr>scan_is_url = (\<lambda>u. startsWith u ''http://'' \<or> startsWith u ''https://''),
     URL_protocol = (\<lambda>u. if startsWith u ''https://'' then Some ''https:''
                         else if startsWith u ''http://'' then Some ''http:'' else None),
     axios_get = (\<lambda>u. Returns (map_of [(''server'', ''nginx'')]))\<rparr>"

section \<open>Properties of the arithmetic on doubles\<close>

lemma round_half_even_le:
  assumes "y \<le> of_int n"
  shows "round_half_even y \<le> n"
proof -
  have f: "\<lfloor>y\<rfloor> \<le> n"
    using assms by (simp add: floor_le_iff)
  have "\<lfloor>y\<rfloor> + 1 \<le> n" if "y \<noteq> of_int \<lfloor>y\<rfloor>"
  proof -
    from that have "of_int \<lfloor>y\<rfloor> < y"
      using of_int_floor_le [of y] by linarith
    with assms have "(of_int \<lfloor>y\<rfloor> :: rat) < of_int n"
      by linarith
    then show ?thesis by simp
  qed
  with f show ?thesis
    by (auto simp: round_half_even_def Let_def)
qed

lemma round_half_even_ge:
  assumes "of_int n \<le> y"
  shows "n \<le> round_half_even y"
proof -
  have "n \<le> \<lfloor>y\<rfloor>"
    using assms by (simp add: le_floor_iff)
  then show ?thesis
    by (auto simp: round_half_even_def Let_def)
qed

lemma round_half_even_error: "\<bar>of_int (round_half_even y) - y\<bar> \<le> 1 / 2"
proof -
  have "of_int \<lfloor>y\<rfloor> \<le> y" "y < of_int \<lfloor>y\<rfloor> + 1"
    by linarith+
  then show ?thesis
    by (auto simp: round_half_even_def Let_def abs_le_iff)
qed

lemma binade_lower:
  assumes "0 < a"
  shows "2 powi (binade a) \<le> a"
proof -
  obtain p q where pq: "quotient_of a = (p, q)"
    by (cases "quotient_of a")
  then have q: "0 < q" and a: "a = of_int p / of_int q"
    by (rule quotient_of_denom_pos, rule quotient_of_div)
  with assms have p: "0 < p"
    by (simp add: zero_less_divide_iff)
  let ?d = "bitlen p - bitlen q"
  have "2 powi (?d - 1) \<le> a"
  proof -
    have bp: "1 \<le> bitlen p"
      using p bitlen_eq_zero_iff [of p] bitlen_nonneg [of p] by linarith
    have "(2::rat) powi (bitlen p - 1) = of_int (2 ^ nat (bitlen p - 1))"
      using bp by (simp add: power_int_def)
    also have "\<dots> \<le> of_int p"
      using bitlen_bounds [OF p] by (simp only: of_int_le_iff)
    finally have 1: "(2::rat) powi (bitlen p - 1) \<le> of_int p" .
    have "of_int q < (of_int (2 ^ nat (bitlen q)) :: rat)"
      using bitlen_bounds [OF q] by (simp only: of_int_less_iff)
    also have "\<dots> = 2 powi (bitlen q)"
      using bitlen_nonneg [of q] by (simp add: power_int_def)
    finally have 2: "of_int q \<le> (2::rat) powi (bitlen q)"
      by simp
    have "?d - 1 = (bitlen p - 1) - bitlen q"
      by simp
    then have "(2::rat) powi (?d - 1) = 2 powi ((bitlen p - 1) - bitlen q)"
      by (rule arg_cong)
    also have "\<dots> = 2 powi (bitlen p - 1) / 2 powi (bitlen q)"
      by (rule power_int_diff) simp
    also have "\<dots> \<le> of_int p / of_int q"
      using 1 2 q p by (intro frac_le) simp_all
    finally show ?thesis
      by (simp add: a)
  qed
  then show ?thesis
    by (simp add: binade_def pq Let_def)
qed

lemma binade_le:
  assumes "0 < a" and "a < 2 powi (t + 1)"
  shows "binade a \<le> t"
proof (rule ccontr)
  assume "\<not> binade a \<le> t"
  then have "t + 1 \<le> binade a"
    by simp
  then have "(2::rat) powi (t + 1) \<le> 2 powi (binade a)"
    by (intro power_int_increasing) simp_all
  with binade_lower [OF assms(1)] assms(2) show False
    by linarith
qed

lemma nearest_double_close:
  assumes "0 \<le> x" and "x \<le> of_int M" and "x < 2 powi (t + 1)" and "t \<le> 52"
  shows "0 \<le> nearest_double x" and "nearest_double x \<le> of_int M"
    and "\<bar>nearest_double x - x\<bar> \<le> 2 powi (max t (- 1022) - 53)"
proof -
  have "0 \<le> nearest_double x \<and> nearest_double x \<le> of_int M
      \<and> \<bar>nearest_double x - x\<bar> \<le> 2 powi (max t (- 1022) - 53)"
  proof (cases "x = 0")
    case True
    with assms(2) show ?thesis
      by (simp add: nearest_double_def)
  next
    case False
    with assms(1) have x: "0 < x"
      by simp
    define j where "j = max (binade x) (- 1022) - 52"
    define k where "k = nat (- j)"
    define m where "m = round_half_even (x / 2 powi j)"
    have b: "binade x \<le> t"
      using x assms(3) by (rule binade_le)
    with assms(4) have j: "j \<le> 0" "j \<le> max t (- 1022) - 52"
      by (simp_all add: j_def)
    have q: "(2::rat) powi j = 1 / of_int (2 ^ k)"
      using j(1) by (simp add: power_int_def k_def field_simps)
    have xq: "x / 2 powi j = x * of_int (2 ^ k)"
      by (simp add: q)
    have nd: "nearest_double x = of_int m * 2 powi j"
      using x by (simp add: nearest_double_def double_quantum_def j_def m_def)
    have "x * of_int (2 ^ k) \<le> of_int M * of_int (2 ^ k)"
      using assms(2) by (intro mult_right_mono) simp_all
    then have "x / 2 powi j \<le> of_int (M * 2 ^ k)"
      by (simp add: xq)
    then have m_le: "m \<le> M * 2 ^ k"
      unfolding m_def by (rule round_half_even_le)
    have "of_int 0 \<le> x / 2 powi j"
      using x by simp
    then have m_ge: "0 \<le> m"
      unfolding m_def by (rule round_half_even_ge)
    have 1: "0 \<le> nearest_double x"
      using m_ge by (simp add: nd)
    have "of_int m * (2::rat) powi j \<le> of_int (M * 2 ^ k) * 2 powi j"
      using m_le by (intro mult_right_mono) (simp_all only: of_int_le_iff zero_le_power_int zero_le_numeral)
    also have "\<dots> = of_int M"
      by (simp add: q)
    finally have 2: "nearest_double x \<le> of_int M"
      by (simp add: nd)
    have "\<bar>of_int m - x / 2 powi j\<bar> \<le> 1 / 2"
      unfolding m_def by (rule round_half_even_error)
    then have "\<bar>of_int m - x / 2 powi j\<bar> * 2 powi j \<le> 1 / 2 * 2 powi j"
      by (intro mult_right_mono) simp_all
    moreover have "\<bar>of_int m - x / 2 powi j\<bar> * 2 powi j = \<bar>nearest_double x - x\<bar>"
    proof -
      have "\<bar>of_int m - x / 2 powi j\<bar> * 2 powi j = \<bar>(of_int m - x / 2 powi j) * 2 powi j\<bar>"
        by (simp add: abs_mult)
      also have "(of_int m - x / 2 powi j) * 2 powi j = nearest_double x - x"
        by (simp add: nd algebra_simps)
      finally show ?thesis .
    qed
    moreover have "1 / 2 * (2::rat) powi j = 2 powi (j - 1)"
      by (simp add: power_int_diff)
    moreover have "(2::rat) powi (j - 1) \<le> 2 powi (max t (- 1022) - 53)"
      using j(2) by (intro power_int_increasing) simp_all
    ultimately have 3: "\<bar>nearest_double x - x\<bar> \<le> 2 powi (max t (- 1022) - 53)"
      by linarith
    from 1 2 3 show ?thesis by simp
  qed
  then show "0 \<le> nearest_double x" and "nearest_double x \<le> of_int M"
    and "\<bar>nearest_double x - x\<bar> \<le> 2 powi (max t (- 1022) - 53)"
    by simp_all
qed


lemma binade_upper:
  assumes "0 < a"
  shows "a < 2 powi (binade a + 1)"
proof -
  obtain p q where pq: "quotient_of a = (p, q)"
    by (cases "quotient_of a")
  then have q: "0 < q" and a: "a = of_int p / of_int q"
    by (rule quotient_of_denom_pos, rule quotient_of_div)
  with assms have p: "0 < p"
    by (simp add: zero_less_divide_iff)
  let ?d = "bitlen p - bitlen q"
  have "a < 2 powi (?d + 1)"
  proof -
    have bq: "1 \<le> bitlen q"
      using q bitlen_eq_zero_iff [of q] bitlen_nonneg [of q] by linarith
    have "(2::rat) powi (bitlen q - 1) = of_int (2 ^ nat (bitlen q - 1))"
      using bq by (simp add: power_int_def)
    also have "\<dots> \<le> of_int q"
      using bitlen_bounds [OF q] by (simp only: of_int_le_iff)
    finally have 1: "(2::rat) powi (bitlen q - 1) \<le> of_int q" .
    have "of_int p < (of_int (2 ^ nat (bitlen p)) :: rat)"
      using bitlen_bounds [OF p] by (simp only: of_int_less_iff)
    also have "\<dots> = 2 powi (bitlen p)"
      using bitlen_nonneg [of p] by (simp add: power_int_def)
    finally have 2: "of_int p < (2::rat) powi (bitlen p)" .
    have "of_int p / of_int q < (2::rat) powi (bitlen p) / 2 powi (bitlen q - 1)"
      using 1 2 q p by (intro frac_less) simp_all
    also have "\<dots> = 2 powi (bitlen p - (bitlen q - 1))"
      by (rule power_int_diff [symmetric]) simp
    also have "bitlen p - (bitlen q - 1) = ?d + 1"
      by simp
    finally show ?thesis
      by (simp add: a)
  qed
  then show ?thesis
    by (auto simp: binade_def pq Let_def)
qed

lemma times_100_rounded:
  assumes "0 \<le> s" and "s \<le> 1"
  shows "Math_round (js_times s 100) = Num (of_int \<lfloor>nearest_double (s * 100) + 1 / 2\<rfloor>)"
    and "0 \<le> nearest_double (s * 100)" and "nearest_double (s * 100) \<le> 100"
    and "\<bar>nearest_double (s * 100) - s * 100\<bar> \<le> 1 / 2 ^ 47"
proof -
  have x: "0 \<le> s * 100" "s * 100 \<le> of_int 100" "s * 100 < 2 powi (6 + 1)"
    using assms by simp_all
  note c = nearest_double_close [OF x, simplified]
  from c show 1: "0 \<le> nearest_double (s * 100)" and 2: "nearest_double (s * 100) \<le> 100"
    by simp_all
  from c(3) show "\<bar>nearest_double (s * 100) - s * 100\<bar> \<le> 1 / 2 ^ 47"
    by (simp add: power_int_minus field_simps)
  have "(100::rat) < 2 ^ 1024"
  proof -
    have "(100::rat) < 2 ^ 7" by simp
    also have "\<dots> \<le> 2 ^ 1024" by (rule power_increasing) simp_all
    finally show ?thesis .
  qed
  with 1 2 have "\<not> 2 ^ 1024 \<le> nearest_double (s * 100)"
    "\<not> nearest_double (s * 100) \<le> - (2 ^ 1024)"
    by linarith+
  then show "Math_round (js_times s 100) = Num (of_int \<lfloor>nearest_double (s * 100) + 1 / 2\<rfloor>)"
    by (simp add: js_times_def to_double_def)
qed

lemma close_round:
  fixes x y :: rat
  assumes "\<bar>y - x\<bar> \<le> d" and "d < 1"
  shows "\<bar>\<lfloor>y + 1 / 2\<rfloor> - round x\<bar> \<le> 1"
proof -
  have "of_int (round x) \<le> x + 1 / 2" "x + 1 / 2 < of_int (round x) + 1"
    unfolding round_def by linarith+
  with assms have "of_int (round x - 1) \<le> y + 1 / 2" "y + 1 / 2 < of_int (round x + 2)"
    by (simp_all add: abs_le_iff)
  then have "round x - 1 \<le> \<lfloor>y + 1 / 2\<rfloor>" "\<lfloor>y + 1 / 2\<rfloor> < round x + 2"
    by (simp_all only: le_floor_iff floor_less_iff)
  then show ?thesis by linarith
qed

lemma away_from_half_round:
  fixes x y d :: rat
  assumes "\<bar>y - x\<bar> \<le> d" and "\<forall>k::int. d < \<bar>x - (of_int k + 1 / 2)\<bar>"
  shows "\<lfloor>y + 1 / 2\<rfloor> = round x"
proof -
  have r: "of_int (round x) \<le> x + 1 / 2" "x + 1 / 2 < of_int (round x) + 1"
    unfolding round_def by linarith+
  from assms(2) have "d < \<bar>x - (of_int (round x - 1) + 1 / 2)\<bar>"
    "d < \<bar>x - (of_int (round x) + 1 / 2)\<bar>"
    by blast+
  with r have "d < x + 1 / 2 - of_int (round x)" "d < of_int (round x) + 1 - (x + 1 / 2)"
    by (simp_all add: abs_if split: if_splits)
  with assms(1) have "of_int (round x) \<le> y + 1 / 2" "y + 1 / 2 < of_int (round x) + 1"
    unfolding abs_le_iff by linarith+
  then show ?thesis
    by (simp add: floor_unique)
qed

lemma two_decimal_score:
  assumes "0 \<le> k" and "k \<le> 100" and "s = nearest_double (of_int k / 100)"
  shows "0 \<le> s" and "s \<le> 1" and "\<lfloor>nearest_double (s * 100) + 1 / 2\<rfloor> = k"
proof -
  have x: "0 \<le> (of_int k / 100 :: rat)" "(of_int k / 100 :: rat) \<le> of_int 1"
    "(of_int k / 100 :: rat) < 2 powi (0 + 1)"
    using assms(1,2) by simp_all
  note c = nearest_double_close [OF x, simplified, folded assms(3)]
  from c show s: "0 \<le> s" "s \<le> 1"
    by simp_all
  from c(3) have e: "\<bar>s - of_int k / 100\<bar> \<le> 1 / 2 ^ 53"
    by (simp add: power_int_minus field_simps)
  then have "\<bar>s * 100 - of_int k\<bar> \<le> 100 / 2 ^ 53"
    unfolding abs_le_iff by linarith
  moreover note times_100_rounded(4) [OF s]
  ultimately have "\<bar>nearest_double (s * 100) - of_int k\<bar> \<le> 1 / 2 ^ 47 + 100 / 2 ^ 53"
    by linarith
  moreover have "(1 / 2 ^ 47 + 100 / 2 ^ 53 :: rat) < 1 / 2"
    by simp
  ultimately have "of_int k \<le> nearest_double (s * 100) + 1 / 2"
    "nearest_double (s * 100) + 1 / 2 < of_int k + 1"
    unfolding abs_le_iff by linarith+
  then show "\<lfloor>nearest_double (s * 100) + 1 / 2\<rfloor> = k"
    by (simp add: floor_unique)
qed

section \<open>Properties of the diagnostics display\<close>

lemma mem_map_filter: "x \<in> set (List.map_filter f xs) \<longleftrightarrow> (\<exists>y\<in>set xs. f y = Some x)"
  by (induction xs) (auto simp: List.map_filter_simps split: option.splits)

lemma relevantAudits_iff:
  "a \<in> set (relevantAudits refs m) \<longleftrightarrow>
     (\<exists>r\<in>set refs. m (ref_id r) = Some a) \<and> scoreDisplayMode a \<noteq> ''notApplicable''
       \<and> scoreDisplayMode a \<noteq> ''error''"
  by (auto simp: relevantAudits_def mem_map_filter)

lemma CategorySection_SomeD:
  assumes "CategorySection c m = Some s"
  obtains refs where "auditRefs c = Some refs" "cat_id c \<noteq> ''pwa''"
    "sec_category s = c" "sec_score s = categoryScore c"
    "sec_opportunities s = opportunitiesAndDiagnostics (relevantAudits refs m)"
    "sec_manual s = manualChecks (relevantAudits refs m)"
    "sec_passed s = passedAudits (relevantAudits refs m)"
  using assms
  by (auto simp: CategorySection_def Let_def split: option.splits if_splits)

lemma ex_nearest:
  "\<lfloor>nearest_double (947 / 1000 * 100) + 1 / 2\<rfloor> = 95"
  "\<lfloor>nearest_double (3 / 10 * 100) + 1 / 2\<rfloor> = 30"
  "\<lfloor>nearest_double (1080863910568919 / 72057594037927936 * 100) + 1 / 2\<rfloor> = 2"
  "\<lfloor>nearest_double (1 / 2 * 100) + 1 / 2\<rfloor> = 50"
  "nearest_double (of_int 50 / 100) = 1 / 2"
  by code_simp+

lemma ex_rounded:
  "Math_round (js_times (947 / 1000) 100) = Num 95"
  "Math_round (js_times (3 / 10) 100) = Num 30"
  "Math_round (js_times (1080863910568919 / 72057594037927936) 100) = Num 2"
  "Math_round (js_times (1 / 2) 100) = Num 50"
  using times_100_rounded(1) [of "947 / 1000"] times_100_rounded(1) [of "3 / 10"]
    times_100_rounded(1) [of "1080863910568919 / 72057594037927936"]
    times_100_rounded(1) [of "1 / 2"]
  unfolding ex_nearest by simp_all

lemma ex_performance_score: "categoryScore ex_performance = Some (Num 95)"
  by (simp add: categoryScore_def ex_performance_def ex_rounded)

lemma ex_sec: "CategorySection ex_performance ex_audits = Some ex_section"
proof -
  have c: "auditRefs ex_performance = Some ex_refs" "cat_id ex_performance \<noteq> ''pwa''"
    by (simp_all add: ex_performance_def)
  have r: "relevantAudits ex_refs ex_audits
      = [ex_unused_css, ex_manual_check, ex_viewport, ex_network]"
    by (simp add: relevantAudits_def ex_refs_def ex_audits_def List.map_filter_simps
        ex_unused_css_def ex_manual_check_def ex_viewport_def ex_not_applicable_def
        ex_network_def)
  have b: "opportunitiesAndDiagnostics [ex_unused_css, ex_manual_check, ex_viewport, ex_network]
      = [ex_unused_css]"
    "manualChecks [ex_unused_css, ex_manual_check, ex_viewport, ex_network] = [ex_manual_check]"
    "passedAudits [ex_unused_css, ex_manual_check, ex_viewport, ex_network] = [ex_viewport]"
    by (simp_all add: opportunitiesAndDiagnostics_def manualChecks_def passedAudits_def
        ex_unused_css_def ex_manual_check_def ex_viewport_def ex_network_def)
  show ?thesis
    by (simp add: CategorySection_def c r b ex_performance_score ex_section_def)
qed

text \<open>
  C2, as stated, fails where it says that the remaining audits are partitioned: in the
  sample report the informative audit without a score is referenced, found and neither
  not-applicable nor in error, and it is in none of the three buckets.
\<close>

theorem informative_audit_in_no_bucket:
  "CategorySection ex_performance ex_audits = Some ex_section
   \<and> auditRefs ex_performance = Some ex_refs
   \<and> ex_audits ''network-requests'' = Some ex_network
   \<and> scoreDisplayMode ex_network = ''informative''
   \<and> ex_network \<in> set (relevantAudits ex_refs ex_audits)
   \<and> ex_network \<notin> set (sec_opportunities ex_section)
   \<and> ex_network \<notin> set (sec_manual ex_section)
   \<and> ex_network \<notin> set (sec_passed ex_section)"
proof -
  have "ex_network \<in> set (relevantAudits ex_refs ex_audits)"
    unfolding relevantAudits_iff
    by (simp add: ex_refs_def ex_audits_def ex_network_def)
  moreover have "ex_network \<notin> set (sec_opportunities ex_section)"
    "ex_network \<notin> set (sec_manual ex_section)" "ex_network \<notin> set (sec_passed ex_section)"
    by (simp_all add: ex_section_def ex_network_def ex_unused_css_def ex_manual_check_def
        ex_viewport_def)
  moreover have "ex_audits ''network-requests'' = Some ex_network"
    "scoreDisplayMode ex_network = ''informative''"
    "auditRefs ex_performance = Some ex_refs"
    by (simp_all add: ex_audits_def ex_network_def ex_performance_def)
  ultimately show ?thesis
    using ex_sec by simp
qed

text \<open>
  C2, amended. In a rendered category section, the audits referenced by the category,
  found in the audit map and neither not-applicable nor in error, are sorted into three
  pairwise disjoint buckets: the opportunities and diagnostics hold exactly those with a
  non-null score below 1 that are not manual, the manual checks exactly those whose
  display mode is manual, the passed audits exactly those with score 1 that are neither
  manual nor informative. The buckets need not cover these audits: the ones left out are
  exactly those that are not manual and have no score, a score above 1, or score 1 with
  the display mode informative.
\<close>

theorem bucket_membership:
  assumes "CategorySection c allAudits = Some s" and "auditRefs c = Some refs"
  shows "(\<forall>a. a \<in> set (sec_opportunities s) \<longleftrightarrow>
            a \<in> set (relevantAudits refs allAudits)
            \<and> (\<exists>x. score a = Some x \<and> x < 1) \<and> scoreDisplayMode a \<noteq> ''manual'')
       \<and> (\<forall>a. a \<in> set (sec_manual s) \<longleftrightarrow>
            a \<in> set (relevantAudits refs allAudits) \<and> scoreDisplayMode a = ''manual'')
       \<and> (\<forall>a. a \<in> set (sec_passed s) \<longleftrightarrow>
            a \<in> set (relevantAudits refs allAudits) \<and> score a = Some 1
            \<and> scoreDisplayMode a \<noteq> ''manual'' \<and> scoreDisplayMode a \<noteq> ''informative'')
       \<and> (\<forall>a. a \<in> set (relevantAudits refs allAudits) \<longleftrightarrow>
            (\<exists>r\<in>set refs. allAudits (ref_id r) = Some a)
            \<and> scoreDisplayMode a \<noteq> ''notApplicable'' \<and> scoreDisplayMode a \<noteq> ''error'')
       \<and> set (sec_opportunities s) \<inter> set (sec_manual s) = {}
       \<and> set (sec_opportunities s) \<inter> set (sec_passed s) = {}
       \<and> set (sec_manual s) \<inter> set (sec_passed s) = {}
       \<and> (\<forall>a. a \<in> set (relevantAudits refs allAudits)
               \<and> a \<notin> set (sec_opportunities s) \<union> set (sec_manual s) \<union> set (sec_passed s)
            \<longleftrightarrow> a \<in> set (relevantAudits refs allAudits)
               \<and> scoreDisplayMode a \<noteq> ''manual''
               \<and> (case score a of None \<Rightarrow> True
                   | Some x \<Rightarrow> x > 1 \<or> (x = 1 \<and> scoreDisplayMode a = ''informative'')))"
proof -
  from assms obtain
    o: "sec_opportunities s = opportunitiesAndDiagnostics (relevantAudits refs allAudits)" and
    m: "sec_manual s = manualChecks (relevantAudits refs allAudits)" and
    p: "sec_passed s = passedAudits (relevantAudits refs allAudits)"
    by (auto elim!: CategorySection_SomeD)
  have 1: "\<forall>a. a \<in> set (relevantAudits refs allAudits)
               \<and> a \<notin> set (sec_opportunities s) \<union> set (sec_manual s) \<union> set (sec_passed s)
            \<longleftrightarrow> a \<in> set (relevantAudits refs allAudits)
               \<and> scoreDisplayMode a \<noteq> ''manual''
               \<and> (case score a of None \<Rightarrow> True
                   | Some x \<Rightarrow> x > 1 \<or> (x = 1 \<and> scoreDisplayMode a = ''informative''))"
    unfolding o m p
    by (auto simp: opportunitiesAndDiagnostics_def manualChecks_def passedAudits_def
        split: option.splits)
  have 2: "(\<forall>a. a \<in> set (sec_opportunities s) \<longleftrightarrow>
            a \<in> set (relevantAudits refs allAudits)
            \<and> (\<exists>x. score a = Some x \<and> x < 1) \<and> scoreDisplayMode a \<noteq> ''manual'')
       \<and> (\<forall>a. a \<in> set (sec_manual s) \<longleftrightarrow>
            a \<in> set (relevantAudits refs allAudits) \<and> scoreDisplayMode a = ''manual'')
       \<and> (\<forall>a. a \<in> set (sec_passed s) \<longleftrightarrow>
            a \<in> set (relevantAudits refs allAudits) \<and> score a = Some 1
            \<and> scoreDisplayMode a \<noteq> ''manual'' \<and> scoreDisplayMode a \<noteq> ''informative'')
       \<and> (\<forall>a. a \<in> set (relevantAudits refs allAudits) \<longleftrightarrow>
            (\<exists>r\<in>set refs. allAudits (ref_id r) = Some a)
            \<and> scoreDisplayMode a \<noteq> ''notApplicable'' \<and> scoreDisplayMode a \<noteq> ''error'')
       \<and> set (sec_opportunities s) \<inter> set (sec_manual s) = {}
       \<and> set (sec_opportunities s) \<inter> set (sec_passed s) = {}
       \<and> set (sec_manual s) \<inter> set (sec_passed s) = {}"
    unfolding o m p
    by (auto simp: opportunitiesAndDiagnostics_def manualChecks_def passedAudits_def
        relevantAudits_iff split: option.splits)
  from 1 2 show ?thesis by simp
qed

theorem bucket_membership_witness:
  "CategorySection ex_performance ex_audits = Some ex_section
   \<and> auditRefs ex_performance = Some ex_refs
   \<and> ((\<forall>a. a \<in> set (sec_opportunities ex_section) \<longleftrightarrow>
            a \<in> set (relevantAudits ex_refs ex_audits)
            \<and> (\<exists>x. score a = Some x \<and> x < 1) \<and> scoreDisplayMode a \<noteq> ''manual'')
       \<and> (\<forall>a. a \<in> set (sec_manual ex_section) \<longleftrightarrow>
            a \<in> set (relevantAudits ex_refs ex_audits) \<and> scoreDisplayMode a = ''manual'')
       \<and> (\<forall>a. a \<in> set (sec_passed ex_section) \<longleftrightarrow>
            a \<in> set (relevantAudits ex_refs ex_audits) \<and> score a = Some 1
            \<and> scoreDisplayMode a \<noteq> ''manual'' \<and> scoreDisplayMode a \<noteq> ''informative'')
       \<and> (\<forall>a. a \<in> set (relevantAudits ex_refs ex_audits) \<longleftrightarrow>
            (\<exists>r\<in>set ex_refs. ex_audits (ref_id r) = Some a)
            \<and> scoreDisplayMode a \<noteq> ''notApplicable'' \<and> scoreDisplayMode a \<noteq> ''error'')
       \<and> set (sec_opportunities ex_section) \<inter> set (sec_manual ex_section) = {}
       \<and> set (sec_opportunities ex_section) \<inter> set (sec_passed ex_section) = {}
       \<and> set (sec_manual ex_section) \<inter> set (sec_passed ex_section) = {}
       \<and> (\<forall>a. a \<in> set (relevantAudits ex_refs ex_audits)
               \<and> a \<notin> set (sec_opportunities ex_section) \<union> set (sec_manual ex_section) \<union> set (sec_passed ex_section)
            \<longleftrightarrow> a \<in> set (relevantAudits ex_refs ex_audits)
               \<and> scoreDisplayMode a \<noteq> ''manual''
               \<and> (case score a of None \<Rightarrow> True
                   | Some x \<Rightarrow> x > 1 \<or> (x = 1 \<and> scoreDisplayMode a = ''informative''))))"
proof -
  have h1: "CategorySection ex_performance ex_audits = Some ex_section"
    by (rule ex_sec)
  have h2: "auditRefs ex_performance = Some ex_refs"
    by (simp add: ex_performance_def)
  show ?thesis
    by (rule conjI [OF h1 conjI [OF h2 bucket_membership [OF h1 h2]]])
qed

text \<open>
  C7. An audit whose display mode is not-applicable or error is in none of the three
  buckets, whatever the audit references and the audit map are, and the row component
  renders nothing for it; so it is no row of any rendered section, with the manual and
  passed lists folded or unfolded.
\<close>

theorem excluded_modes:
  assumes "scoreDisplayMode a = ''notApplicable'' \<or> scoreDisplayMode a = ''error''"
  shows "a \<notin> set (opportunitiesAndDiagnostics (relevantAudits refs allAudits))
       \<and> a \<notin> set (manualChecks (relevantAudits refs allAudits))
       \<and> a \<notin> set (passedAudits (relevantAudits refs allAudits))
       \<and> AuditItem a isPassed = None
       \<and> (CategorySection c allAudits = Some s \<longrightarrow>
            a \<notin> set (sec_opportunities s) \<and> a \<notin> set (sec_manual s) \<and> a \<notin> set (sec_passed s)
            \<and> a \<notin> row_audit ` set (section_rows showManual showPassed s))"
proof -
  have rel: "a \<notin> set (relevantAudits refs' allAudits)" for refs'
    using assms by (auto simp: relevantAudits_iff)
  have b: "a \<notin> set (opportunitiesAndDiagnostics (relevantAudits refs' allAudits))"
    "a \<notin> set (manualChecks (relevantAudits refs' allAudits))"
    "a \<notin> set (passedAudits (relevantAudits refs' allAudits))" for refs'
    using rel [of refs']
    by (simp_all add: opportunitiesAndDiagnostics_def manualChecks_def passedAudits_def)
  have item: "AuditItem a p = None" for p
    using assms by (auto simp: AuditItem_def)
  have row: "row_audit r = x" if "AuditItem x p = Some r" for x p r
    using that by (auto simp: AuditItem_def split: if_splits prod.splits)
  have rows: "a \<notin> row_audit ` set (section_rows showManual showPassed s)"
    if "CategorySection c allAudits = Some s"
  proof
    assume "a \<in> row_audit ` set (section_rows showManual showPassed s)"
    then obtain r where r: "r \<in> set (section_rows showManual showPassed s)" "row_audit r = a"
      by auto
    then obtain x p where "AuditItem x p = Some r"
      by (auto simp: section_rows_def mem_map_filter split: if_splits)
    with r row item show False by fastforce
  qed
  show ?thesis
    using b item rows by (auto elim!: CategorySection_SomeD)
qed

theorem excluded_modes_witness:
  "(scoreDisplayMode ex_not_applicable = ''notApplicable''
      \<or> scoreDisplayMode ex_not_applicable = ''error'')
   \<and> CategorySection ex_performance ex_audits = Some ex_section
   \<and> ex_audits ''video-caption'' = Some ex_not_applicable
   \<and> ex_not_applicable \<notin> set (sec_opportunities ex_section)
   \<and> ex_not_applicable \<notin> set (sec_manual ex_section)
   \<and> ex_not_applicable \<notin> set (sec_passed ex_section)
   \<and> ex_not_applicable \<notin> row_audit ` set (section_rows True True ex_section)
   \<and> AuditItem ex_not_applicable False = None"
proof -
  have h: "scoreDisplayMode ex_not_applicable = ''notApplicable''
      \<or> scoreDisplayMode ex_not_applicable = ''error''"
    by (simp add: ex_not_applicable_def)
  have s: "CategorySection ex_performance ex_audits = Some ex_section"
    by (rule ex_sec)
  have m: "ex_audits ''video-caption'' = Some ex_not_applicable"
    by (simp add: ex_audits_def)
  show ?thesis
    using excluded_modes [OF h, of ex_refs ex_audits False ex_performance ex_section True True]
      h s m by blast
qed

section \<open>Properties of the analysis handler\<close>

lemma analyze_ok_cases:
  assumes "analyze_handler env req = (AnalyzeOk d, evs)"
  obtains url strategy port r where
    "req_method req = ''POST''"
    "analyzeSchema_parse (zod_is_url env) (req_body req) = Inr (url, strategy)"
    "puppeteer_launch env = Returns ()"
    "endpoint_port env = Returns port" "port \<noteq> []"
    "lighthouse env url port (lighthouseConfig strategy) = Returns (Some r)"
    "d = responseData url strategy r"
  using assms
  by (auto simp: analyze_handler_def try_block_def catch_block_def run_lighthouse_def Let_def
      split: if_splits sum.splits prod.splits outcome.splits option.splits thrown.splits)

lemma ex_normalized:
  "normalized_score ex_categories ''performance'' = Some (Num 95)"
  "normalized_score ex_categories ''accessibility'' = None"
  "normalized_score ex_categories ''best-practices'' = None"
  "normalized_score ex_categories ''seo'' = None"
  "normalized_score ex_categories ''pwa'' = Some (Num 30)"
  by (simp_all add: normalized_score_def ex_categories_def ex_performance_def ex_pwa_def
      ex_seo_def ex_rounded)

lemma ex_responseData:
  "responseData ''https://example.com'' ''mobile'' ex_lhr = ex_response"
  by (simp add: responseData_def ex_lhr_def ex_normalized ex_response_def)

lemma ex_handler:
  "analyze_handler ex_env ex_req =
     (AnalyzeOk ex_response,
      [BrowserLaunched, ConsoleError (SaveFailed ''connection refused''), Responded 200,
       BrowserClose True])"
  by (simp add: analyze_handler_def try_block_def run_lighthouse_def
      ex_env_def ex_req_def analyzeSchema_parse_def startsWith_def
      save_report_def session_userId_def ex_session_def finally_block_def
      ex_responseData)

lemma db_outcome_not_in_response:
  "fst (analyze_handler (env\<lparr>report_create := x\<rparr>) req) = fst (analyze_handler env req)"
  by (simp add: analyze_handler_def try_block_def catch_block_def run_lighthouse_def Let_def
      split: if_splits sum.splits prod.splits outcome.splits option.splits thrown.splits)

text \<open>
  C6. When a request of a signed-in user passes validation, the browser launches, the
  engine returns a report, and storing the report row fails, the handler still answers
  200 with the full report payload; the failure is written to the error log, and the
  response is the one a successful insertion gives.
\<close>

theorem persistence_failure_swallowed:
  assumes "req_method req = ''POST''"
    and "analyzeSchema_parse (zod_is_url env) (req_body req) = Inr (url, strategy)"
    and "puppeteer_launch env = Returns ()"
    and "endpoint_port env = Returns port" and "port \<noteq> []"
    and "lighthouse env url port (lighthouseConfig strategy) = Returns (Some r)"
    and "session_userId (getServerSession env) = Some uid" and "uid \<noteq> []"
    and "report_create env = Throws m"
  shows "fst (analyze_handler env req) = AnalyzeOk (responseData url strategy r)
       \<and> status_code (fst (analyze_handler env req)) = 200
       \<and> fullLighthouseDetails (responseData url strategy r) = Some
            \<lparr>fl_categories = lhr_categories r, fl_audits = lhr_audits r,
             fl_finalUrl = lhr_finalUrl r, fl_lighthouseVersion = lhr_lighthouseVersion r,
             fl_fetchTime = lhr_fetchTime r\<rparr>
       \<and> snd (analyze_handler env req) =
            [BrowserLaunched, ConsoleError (SaveFailed m), Responded 200]
            @ finally_block env True 0
       \<and> fst (analyze_handler (env\<lparr>report_create := Returns ()\<rparr>) req)
            = fst (analyze_handler env req)"
proof -
  have t: "try_block env req =
      (Inr (AnalyzeOk (responseData url strategy r)),
       [BrowserLaunched, ConsoleError (SaveFailed m), Responded 200], True, 0)"
    using assms by (simp add: try_block_def run_lighthouse_def save_report_def)
  have h: "analyze_handler env req =
      (AnalyzeOk (responseData url strategy r),
       [BrowserLaunched, ConsoleError (SaveFailed m), Responded 200] @ finally_block env True 0)"
    using assms(1) by (simp add: analyze_handler_def t)
  have d: "fst (analyze_handler (env\<lparr>report_create := Returns ()\<rparr>) req)
      = fst (analyze_handler env req)"
    by (rule db_outcome_not_in_response)
  show ?thesis
    unfolding d unfolding h by (simp add: responseData_def)
qed

theorem persistence_failure_swallowed_witness:
  "req_method ex_req = ''POST''
   \<and> analyzeSchema_parse (zod_is_url ex_env) (req_body ex_req)
       = Inr (''https://example.com'', ''mobile'')
   \<and> puppeteer_launch ex_env = Returns ()
   \<and> endpoint_port ex_env = Returns ''9222'' \<and> ''9222'' \<noteq> []
   \<and> lighthouse ex_env ''https://example.com'' ''9222'' (lighthouseConfig ''mobile'')
       = Returns (Some ex_lhr)
   \<and> session_userId (getServerSession ex_env) = Some ''user-1'' \<and> ''user-1'' \<noteq> []
   \<and> report_create ex_env = Throws ''connection refused''
   \<and> fst (analyze_handler ex_env ex_req)
       = AnalyzeOk (responseData ''https://example.com'' ''mobile'' ex_lhr)
   \<and> status_code (fst (analyze_handler ex_env ex_req)) = 200
   \<and> snd (analyze_handler ex_env ex_req) =
        [BrowserLaunched, ConsoleError (SaveFailed ''connection refused''), Responded 200,
         BrowserClose True]"
proof -
  have h: "req_method ex_req = ''POST''"
    "analyzeSchema_parse (zod_is_url ex_env) (req_body ex_req)
       = Inr (''https://example.com'', ''mobile'')"
    "puppeteer_launch ex_env = Returns ()"
    "endpoint_port ex_env = Returns ''9222''" "''9222'' \<noteq> []"
    "lighthouse ex_env ''https://example.com'' ''9222'' (lighthouseConfig ''mobile'')
       = Returns (Some ex_lhr)"
    "session_userId (getServerSession ex_env) = Some ''user-1''" "''user-1'' \<noteq> []"
    "report_create ex_env = Throws ''connection refused''"
    by (simp_all add: ex_req_def ex_env_def analyzeSchema_parse_def startsWith_def
        session_userId_def ex_session_def)
  have f: "finally_block ex_env True 0 = [BrowserClose True]"
    by (simp add: finally_block_def ex_env_def)
  show ?thesis
    using persistence_failure_swallowed [OF h] h unfolding f by simp
qed



lemma catch_block_events:
  "snd (catch_block req e) = [ConsoleError (CriticalError e), Responded (status_code (fst (catch_block req e)))]"
  by (cases e) (simp_all add: catch_block_def Let_def)







lemma report_created_scores:
  assumes "ReportCreated row \<in> set (snd (analyze_handler env req))"
  shows "rep_performanceScore row = normalized_score (rep_metrics row) ''performance''
       \<and> rep_accessibilityScore row = normalized_score (rep_metrics row) ''accessibility''
       \<and> rep_bestPracticesScore row = normalized_score (rep_metrics row) ''best-practices''
       \<and> rep_seoScore row = normalized_score (rep_metrics row) ''seo''
       \<and> rep_pwaScore row = normalized_score (rep_metrics row) ''pwa''"
proof (cases "req_method req = ''POST''")
  case False
  with assms show ?thesis
    by (simp add: analyze_handler_def)
next
  case True
  obtain res evs browser n where t: "try_block env req = (res, evs, browser, n)"
    by (cases "try_block env req" rule: prod_cases4)
  have f: "ReportCreated row \<notin> set (finally_block env browser n)"
    by (simp add: finally_block_def split: outcome.splits)
  have c: "ReportCreated row \<notin> set cevs" if "catch_block req e = (r, cevs)" for e r cevs
    using catch_block_events [of req e] that by simp
  from assms True t f c have "ReportCreated row \<in> set evs"
    by (auto simp: analyze_handler_def split: sum.splits prod.splits)
  with t show ?thesis
    by (auto simp: try_block_def run_lighthouse_def save_report_def responseData_def
        split: sum.splits prod.splits outcome.splits option.splits if_splits)
qed

lemma ex_double_literal:
  "nearest_double (15 / 1000) = 1080863910568919 / 72057594037927936"
  by code_simp

text \<open>
  C1, as stated, fails: the double that the literal \<open>0.015\<close> denotes lies in \<open>[0, 1]\<close>, its
  exact hundredfold rounds to 1, and both the gauge and the handler give 2, because the
  product of the two doubles is the double \<open>1.5\<close>.
\<close>

theorem rounding_differs_at_double_0_015:
  "cat_score ex_low = Some (1080863910568919 / 72057594037927936)
   \<and> nearest_double (15 / 1000) = 1080863910568919 / 72057594037927936
   \<and> (0::rat) \<le> 1080863910568919 / 72057594037927936
   \<and> (1080863910568919 / 72057594037927936 :: rat) \<le> 1
   \<and> round (1080863910568919 / 72057594037927936 * 100 :: rat) = 1
   \<and> categoryScore ex_low = Some (Num 2)
   \<and> normalized_score (map_of [(''accessibility'', ex_low)]) ''accessibility'' = Some (Num 2)"
proof -
  have "round (1080863910568919 / 72057594037927936 * 100 :: rat) = 1"
    by (simp add: round_def floor_eq_iff)
  moreover have "categoryScore ex_low = Some (Num 2)"
    by (simp add: categoryScore_def ex_low_def ex_rounded)
  moreover have "normalized_score (map_of [(''accessibility'', ex_low)]) ''accessibility''
      = Some (Num 2)"
    by (simp add: normalized_score_def ex_low_def ex_rounded)
  moreover have "cat_score ex_low = Some (1080863910568919 / 72057594037927936)"
    by (simp add: ex_low_def)
  ultimately show ?thesis
    using ex_double_literal by simp
qed

text \<open>
  C1, amended. For a category's raw score \<open>s\<close> in \<open>[0, 1]\<close>, the score shown in the gauge
  and the score the analysis handler derives are \<open>Math.round\<close> of the double product
  \<open>s * 100\<close>: an integer from 0 to 100 that differs from \<open>round (s * 100)\<close> of the exact
  product by at most 1, equals it whenever the exact product is farther than \<open>2 ^ - 47\<close>
  from every half-integer, and is \<open>k\<close> whenever \<open>s\<close> is the double nearest to \<open>k / 100\<close>
  for an integer \<open>k\<close> from 0 to 100. A category without a score, or one that is absent,
  gives no score (and no error). The five top-level scores of a successful response, and
  the five scores of a stored report row, are these derived scores of the categories they
  carry, and the score of a rendered section is the gauge score of its category.
\<close>

theorem score_rounding:
  "(0 \<le> s \<and> s \<le> 1 \<and> cat_score c = Some s \<longrightarrow>
      (\<exists>n. categoryScore c = Some (Num (of_int n))
         \<and> n = \<lfloor>nearest_double (s * 100) + 1 / 2\<rfloor>
         \<and> 0 \<le> n \<and> n \<le> 100
         \<and> \<bar>n - round (s * 100)\<bar> \<le> 1
         \<and> ((\<forall>k::int. 1 / 2 ^ 47 < \<bar>s * 100 - (of_int k + 1 / 2)\<bar>) \<longrightarrow> n = round (s * 100))
         \<and> (\<forall>k. 0 \<le> k \<and> k \<le> 100 \<and> s = nearest_double (of_int k / 100) \<longrightarrow> n = k)
         \<and> (cats key = Some c \<longrightarrow> normalized_score cats key = Some (Num (of_int n)))))
   \<and> (cat_score c = None \<longrightarrow>
      categoryScore c = None \<and> (cats key = Some c \<longrightarrow> normalized_score cats key = None))
   \<and> (cats key = None \<longrightarrow> normalized_score cats key = None)
   \<and> (CategorySection c allAudits = Some sec \<longrightarrow> sec_score sec = categoryScore c)
   \<and> (analyze_handler env req = (AnalyzeOk d, evs) \<longrightarrow>
        (\<exists>details. fullLighthouseDetails d = Some details
           \<and> performanceScore d = normalized_score (fl_categories details) ''performance''
           \<and> accessibilityScore d = normalized_score (fl_categories details) ''accessibility''
           \<and> bestPracticesScore d = normalized_score (fl_categories details) ''best-practices''
           \<and> seoScore d = normalized_score (fl_categories details) ''seo''
           \<and> pwaScore d = normalized_score (fl_categories details) ''pwa''))
   \<and> (ReportCreated row \<in> set (snd (analyze_handler env req)) \<longrightarrow>
        rep_performanceScore row = normalized_score (rep_metrics row) ''performance''
        \<and> rep_accessibilityScore row = normalized_score (rep_metrics row) ''accessibility''
        \<and> rep_bestPracticesScore row = normalized_score (rep_metrics row) ''best-practices''
        \<and> rep_seoScore row = normalized_score (rep_metrics row) ''seo''
        \<and> rep_pwaScore row = normalized_score (rep_metrics row) ''pwa'')"
proof -
  have main: "\<exists>n. categoryScore c = Some (Num (of_int n))
         \<and> n = \<lfloor>nearest_double (s * 100) + 1 / 2\<rfloor>
         \<and> 0 \<le> n \<and> n \<le> 100
         \<and> \<bar>n - round (s * 100)\<bar> \<le> 1
         \<and> ((\<forall>k::int. 1 / 2 ^ 47 < \<bar>s * 100 - (of_int k + 1 / 2)\<bar>) \<longrightarrow> n = round (s * 100))
         \<and> (\<forall>k. 0 \<le> k \<and> k \<le> 100 \<and> s = nearest_double (of_int k / 100) \<longrightarrow> n = k)
         \<and> (cats key = Some c \<longrightarrow> normalized_score cats key = Some (Num (of_int n)))"
    if s: "0 \<le> s" "s \<le> 1" and c: "cat_score c = Some s"
  proof -
    let ?y = "nearest_double (s * 100)"
    let ?n = "\<lfloor>?y + 1 / 2\<rfloor>"
    note r = times_100_rounded [OF s]
    have 1: "categoryScore c = Some (Num (of_int ?n))"
      using c r(1) by (simp add: categoryScore_def)
    have 2: "normalized_score cats key = Some (Num (of_int ?n))" if "cats key = Some c"
      using that c r(1) by (simp add: normalized_score_def)
    have 3: "0 \<le> ?n" "?n \<le> 100"
      using r(2,3) by (simp_all add: floor_le_iff)
    have "(1 / 2 ^ 47 :: rat) < 1"
      by simp
    with r(4) have 4: "\<bar>?n - round (s * 100)\<bar> \<le> 1"
      by (rule close_round)
    have 5: "?n = round (s * 100)"
      if "\<forall>k::int. 1 / 2 ^ 47 < \<bar>s * 100 - (of_int k + 1 / 2)\<bar>"
      using r(4) that by (rule away_from_half_round)
    have 6: "?n = k" if "0 \<le> k \<and> k \<le> 100 \<and> s = nearest_double (of_int k / 100)" for k
      using two_decimal_score(3) [of k s] that by simp
    from 1 2 3 4 5 6 show ?thesis
      by blast
  qed
  have absent: "categoryScore c = None" "cats key = Some c \<Longrightarrow> normalized_score cats key = None"
    if "cat_score c = None"
    using that by (simp_all add: categoryScore_def normalized_score_def)
  have missing: "normalized_score cats key = None" if "cats key = None"
    using that by (simp add: normalized_score_def)
  have sec: "sec_score sec = categoryScore c" if "CategorySection c allAudits = Some sec"
    using that by (auto elim!: CategorySection_SomeD)
  have resp: "\<exists>details. fullLighthouseDetails d = Some details
           \<and> performanceScore d = normalized_score (fl_categories details) ''performance''
           \<and> accessibilityScore d = normalized_score (fl_categories details) ''accessibility''
           \<and> bestPracticesScore d = normalized_score (fl_categories details) ''best-practices''
           \<and> seoScore d = normalized_score (fl_categories details) ''seo''
           \<and> pwaScore d = normalized_score (fl_categories details) ''pwa''"
    if "analyze_handler env req = (AnalyzeOk d, evs)"
    using that by (auto elim!: analyze_ok_cases simp: responseData_def)
  note stored = report_created_scores [of row env req]
  show ?thesis
    by (intro conjI impI) (use main absent missing sec resp stored in \<open>simp_all\<close>)
qed

lemma ex_handler_saving:
  "analyze_handler ex_env_saving ex_req =
     (AnalyzeOk ex_response,
      [BrowserLaunched, ReportCreated ex_saved_row, Responded 200, BrowserClose True])"
proof -
  have "ex_saved_row = \<lparr>rep_url = res_url ex_response, rep_strategy = res_strategy ex_response,
      rep_performanceScore = performanceScore ex_response,
      rep_accessibilityScore = accessibilityScore ex_response,
      rep_bestPracticesScore = bestPracticesScore ex_response,
      rep_seoScore = seoScore ex_response, rep_pwaScore = pwaScore ex_response,
      rep_metrics = lhr_categories ex_lhr, rep_userId = ''user-1''\<rparr>"
    by (simp add: ex_saved_row_def ex_response_def ex_lhr_def)
  then show ?thesis
    by (simp add: analyze_handler_def try_block_def run_lighthouse_def
      ex_env_saving_def ex_env_def ex_req_def analyzeSchema_parse_def startsWith_def
      save_report_def session_userId_def ex_session_def finally_block_def
      ex_responseData)
qed

lemma ex_away_from_half: "\<forall>k::int. 1 / 2 ^ 47 < \<bar>947 / 1000 * 100 - (of_int k + 1 / 2 :: rat)\<bar>"
proof
  fix k :: int
  show "1 / 2 ^ 47 < \<bar>947 / 1000 * 100 - (of_int k + 1 / 2 :: rat)\<bar>"
  proof (cases "k \<le> 94")
    case True
    then have "(of_int k :: rat) \<le> 94"
      by (metis of_int_le_iff of_int_numeral)
    then show ?thesis by (simp add: abs_if)
  next
    case False
    then have "95 \<le> k" by simp
    then have "(95 :: rat) \<le> of_int k"
      by (metis of_int_le_iff of_int_numeral)
    then show ?thesis by (simp add: abs_if)
  qed
qed

theorem score_rounding_witness:
  "(0::rat) \<le> 947 / 1000 \<and> (947 / 1000 :: rat) \<le> 1
   \<and> cat_score ex_performance = Some (947 / 1000)
   \<and> ex_categories ''performance'' = Some ex_performance
   \<and> round (947 / 1000 * 100 :: rat) = 95
   \<and> categoryScore ex_performance = Some (Num 95)
   \<and> normalized_score ex_categories ''performance'' = Some (Num 95)
   \<and> cat_score ex_half = Some (1 / 2)
   \<and> 1 / 2 = nearest_double (of_int 50 / 100)
   \<and> categoryScore ex_half = Some (Num 50)
   \<and> cat_score ex_seo = None \<and> ex_categories ''seo'' = Some ex_seo
   \<and> categoryScore ex_seo = None \<and> normalized_score ex_categories ''seo'' = None
   \<and> ex_categories ''accessibility'' = None
   \<and> normalized_score ex_categories ''accessibility'' = None
   \<and> CategorySection ex_performance ex_audits = Some ex_section
   \<and> sec_score ex_section = Some (Num 95)
   \<and> fst (analyze_handler ex_env_saving ex_req) = AnalyzeOk ex_response
   \<and> performanceScore ex_response = Some (Num 95)
   \<and> accessibilityScore ex_response = None
   \<and> ReportCreated ex_saved_row \<in> set (snd (analyze_handler ex_env_saving ex_req))
   \<and> rep_metrics ex_saved_row = ex_categories
   \<and> rep_performanceScore ex_saved_row = Some (Num 95)
   \<and> rep_seoScore ex_saved_row = None"
proof -
  have r: "round (947 / 1000 * 100 :: rat) = 95"
    by (simp add: round_def floor_eq_iff)
  have b1: "(0::rat) \<le> 947 / 1000" and b2: "(947 / 1000 :: rat) \<le> 1"
    by simp_all
  have p1: "cat_score ex_performance = Some (947 / 1000)"
    and p2: "ex_categories ''performance'' = Some ex_performance"
    by (simp_all add: ex_performance_def ex_categories_def)
  have q1: "cat_score ex_seo = None" and q2: "ex_categories ''seo'' = Some ex_seo"
    by (simp_all add: ex_seo_def ex_categories_def)
  have a: "ex_categories ''accessibility'' = None"
    by (simp add: ex_categories_def)
  have h1: "cat_score ex_half = Some (1 / 2)"
    by (simp add: ex_half_def)
  have h2: "(0::rat) \<le> 1 / 2 \<and> (1 / 2 :: rat) \<le> 1 \<and> cat_score ex_half = Some (1 / 2)"
    by (simp add: ex_half_def)
  have h5: "1 / 2 = nearest_double (of_int 50 / 100)"
    by (rule ex_nearest(5) [symmetric])
  have h3: "(0::int) \<le> 50 \<and> (50::int) \<le> 100 \<and> 1 / 2 = nearest_double (of_int 50 / 100)"
    by (intro conjI h5) simp_all
  have c: "ReportCreated ex_saved_row \<in> set (snd (analyze_handler ex_env_saving ex_req))"
    unfolding ex_handler_saving by simp
  have m: "rep_metrics ex_saved_row = ex_categories"
    by (simp add: ex_saved_row_def)
  note T = score_rounding [of "947 / 1000" ex_performance ex_categories "''performance''"
      ex_audits ex_section ex_env_saving ex_req ex_response
      "[BrowserLaunched, ReportCreated ex_saved_row, Responded 200, BrowserClose True]"
      ex_saved_row]
  from T b1 b2 p1 p2 obtain n where n: "categoryScore ex_performance = Some (Num (of_int n))"
    "(\<forall>k::int. 1 / 2 ^ 47 < \<bar>947 / 1000 * 100 - (of_int k + 1 / 2 :: rat)\<bar>)
       \<longrightarrow> n = round (947 / 1000 * 100 :: rat)"
    "normalized_score ex_categories ''performance'' = Some (Num (of_int n))"
    by blast
  from n(2) ex_away_from_half have "n = round (947 / 1000 * 100 :: rat)"
    by (rule mp)
  then have n95: "n = 95"
    unfolding r .
  have g1: "categoryScore ex_performance = Some (Num 95)"
    and g1n: "normalized_score ex_categories ''performance'' = Some (Num 95)"
    using n(1,3) unfolding n95 by simp_all
  from T ex_sec have "sec_score ex_section = categoryScore ex_performance"
    by blast
  then have g2: "sec_score ex_section = Some (Num 95)"
    unfolding g1 .
  have g3: "performanceScore ex_response = Some (Num 95)"
    and g3n: "accessibilityScore ex_response = None"
    by (simp_all add: ex_response_def)
  from T c have "rep_performanceScore ex_saved_row
      = normalized_score (rep_metrics ex_saved_row) ''performance''"
    "rep_seoScore ex_saved_row = normalized_score (rep_metrics ex_saved_row) ''seo''"
    by blast+
  then have s1: "rep_performanceScore ex_saved_row = normalized_score ex_categories ''performance''"
    and s2: "rep_seoScore ex_saved_row = normalized_score ex_categories ''seo''"
    unfolding m by simp_all
  from score_rounding [of 0 ex_seo ex_categories "''seo''"] q1 q2
  have g4: "categoryScore ex_seo = None" and g4n: "normalized_score ex_categories ''seo'' = None"
    by blast+
  from score_rounding [of 0 ex_seo ex_categories "''accessibility''"] a
  have g5: "normalized_score ex_categories ''accessibility'' = None"
    by blast
  from score_rounding [of "1 / 2" ex_half] h2 obtain n' where n':
    "categoryScore ex_half = Some (Num (of_int n'))"
    "\<forall>k. 0 \<le> k \<and> k \<le> 100 \<and> 1 / 2 = nearest_double (of_int k / 100) \<longrightarrow> n' = k"
    by blast
  from n'(2) have "0 \<le> (50::int) \<and> (50::int) \<le> 100 \<and> 1 / 2 = nearest_double (of_int 50 / 100)
      \<longrightarrow> n' = 50"
    by (rule spec)
  from this h3 have "n' = 50"
    by (rule mp)
  with n'(1) have g8: "categoryScore ex_half = Some (Num 50)"
    by simp
  have g6: "fst (analyze_handler ex_env_saving ex_req) = AnalyzeOk ex_response"
    unfolding ex_handler_saving by simp
  have t1: "rep_performanceScore ex_saved_row = Some (Num 95)"
    using s1 unfolding g1n .
  have t2: "rep_seoScore ex_saved_row = None"
    using s2 unfolding g4n .
  show ?thesis
    by (intro conjI)
      (rule b1 b2 p1 p2 r g1 g1n h1 h5 g8 q1 q2 g4 g4n a g5 ex_sec g2 g6 g3 g3n c m t1 t2)+
qed

lemma DiagnosticsDisplay_mem:
  assumes "(k, sec) \<in> set (DiagnosticsDisplay categories audits)"
  obtains cs as c where "categories = Some cs" "audits = Some as"
    "k \<in> set categoryDisplayOrder" "cs k = Some c" "CategorySection c as = Some sec"
  using assms
  by (auto simp: DiagnosticsDisplay_def mem_map_filter split: option.splits)

text \<open>
  C9. Every section the diagnostics display renders belongs to one of the keys
  performance, accessibility, best-practices and seo, and its category has audit
  references and an id other than pwa; a category whose id is pwa, or one without audit
  references, gives no section. Yet the engine is asked for the pwa category, and a
  successful response carries the pwa score derived from the report.
\<close>

theorem pwa_never_rendered:
  "(\<forall>k sec. (k, sec) \<in> set (DiagnosticsDisplay categories audits) \<longrightarrow>
       k \<in> {''performance'', ''accessibility'', ''best-practices'', ''seo''}
       \<and> cat_id (sec_category sec) \<noteq> ''pwa''
       \<and> auditRefs (sec_category sec) \<noteq> None
       \<and> (\<exists>cs. categories = Some cs \<and> cs k = Some (sec_category sec)))
   \<and> (cat_id c = ''pwa'' \<or> auditRefs c = None \<longrightarrow> CategorySection c allAudits = None)
   \<and> ''pwa'' \<in> set (onlyCategories (lighthouseConfig strategy))
   \<and> (analyze_handler env req = (AnalyzeOk d, evs) \<longrightarrow>
        (\<exists>details url st port r.
           lighthouse env url port (lighthouseConfig st) = Returns (Some r)
           \<and> fullLighthouseDetails d = Some details
           \<and> fl_categories details = lhr_categories r
           \<and> pwaScore d = normalized_score (lhr_categories r) ''pwa''))"
proof -
  have 1: "k \<in> {''performance'', ''accessibility'', ''best-practices'', ''seo''}
       \<and> cat_id (sec_category sec) \<noteq> ''pwa''
       \<and> auditRefs (sec_category sec) \<noteq> None
       \<and> (\<exists>cs. categories = Some cs \<and> cs k = Some (sec_category sec))"
    if "(k, sec) \<in> set (DiagnosticsDisplay categories audits)" for k sec
    using that
    by (elim DiagnosticsDisplay_mem CategorySection_SomeD) (auto simp: categoryDisplayOrder_def)
  have 2: "CategorySection c allAudits = None" if "cat_id c = ''pwa'' \<or> auditRefs c = None"
    using that by (auto simp: CategorySection_def split: option.splits)
  have 3: "''pwa'' \<in> set (onlyCategories (lighthouseConfig strategy))"
    by (simp add: lighthouseConfig_def currentCategories_def)
  have 4: "\<exists>details url st port r.
           lighthouse env url port (lighthouseConfig st) = Returns (Some r)
           \<and> fullLighthouseDetails d = Some details
           \<and> fl_categories details = lhr_categories r
           \<and> pwaScore d = normalized_score (lhr_categories r) ''pwa''"
    if "analyze_handler env req = (AnalyzeOk d, evs)"
    using that by (elim analyze_ok_cases) (auto simp: responseData_def)
  show ?thesis
    using 1 2 3 4 by blast
qed


lemma ex_display:
  "DiagnosticsDisplay (Some ex_categories) (Some ex_audits) = [(''performance'', ex_section)]"
proof -
  have "CategorySection ex_seo ex_audits = None"
    by (simp add: CategorySection_def ex_seo_def)
  then show ?thesis
    by (simp add: DiagnosticsDisplay_def categoryDisplayOrder_def List.map_filter_simps
        ex_categories_def ex_sec)
qed

theorem pwa_never_rendered_witness:
  "(''performance'', ex_section) \<in> set (DiagnosticsDisplay (Some ex_categories) (Some ex_audits))
   \<and> cat_id (sec_category ex_section) \<noteq> ''pwa''
   \<and> auditRefs (sec_category ex_section) \<noteq> None
   \<and> ex_categories ''pwa'' = Some ex_pwa
   \<and> (cat_id ex_pwa = ''pwa'' \<or> auditRefs ex_pwa = None)
   \<and> CategorySection ex_pwa ex_audits = None
   \<and> ''pwa'' \<in> set (onlyCategories (lighthouseConfig ''mobile''))
   \<and> analyze_handler ex_env ex_req =
       (AnalyzeOk ex_response,
        [BrowserLaunched, ConsoleError (SaveFailed ''connection refused''), Responded 200,
         BrowserClose True])
   \<and> pwaScore ex_response = Some (Num 30)
   \<and> (\<exists>details url st port r.
           lighthouse ex_env url port (lighthouseConfig st) = Returns (Some r)
           \<and> fullLighthouseDetails ex_response = Some details
           \<and> fl_categories details = lhr_categories r
           \<and> pwaScore ex_response = normalized_score (lhr_categories r) ''pwa'')"
proof -
  have m: "(''performance'', ex_section)
      \<in> set (DiagnosticsDisplay (Some ex_categories) (Some ex_audits))"
    by (simp add: ex_display)
  have c: "cat_id ex_pwa = ''pwa'' \<or> auditRefs ex_pwa = None"
    "ex_categories ''pwa'' = Some ex_pwa"
    "pwaScore ex_response = Some (Num 30)"
    by (simp_all add: ex_pwa_def ex_categories_def ex_response_def)
  note T = pwa_never_rendered [of "Some ex_categories" "Some ex_audits" ex_pwa ex_audits
      "''mobile''" ex_env ex_req ex_response
      "[BrowserLaunched, ConsoleError (SaveFailed ''connection refused''), Responded 200,
        BrowserClose True]"]
  from T m have 1: "cat_id (sec_category ex_section) \<noteq> ''pwa''"
    "auditRefs (sec_category ex_section) \<noteq> None"
    by blast+
  from T c(1) have 2: "CategorySection ex_pwa ex_audits = None"
    by blast
  from T have 3: "''pwa'' \<in> set (onlyCategories (lighthouseConfig ''mobile''))"
    by blast
  from T ex_handler have 4: "\<exists>details url st port r.
           lighthouse ex_env url port (lighthouseConfig st) = Returns (Some r)
           \<and> fullLighthouseDetails ex_response = Some details
           \<and> fl_categories details = lhr_categories r
           \<and> pwaScore ex_response = normalized_score (lhr_categories r) ''pwa''"
    by blast
  show ?thesis
    using m c 1 2 3 4 ex_handler by blast
qed

section \<open>Properties of the security scan\<close>

lemma determine_risk_spec:
  "(fst (determine_risk cs), fst (snd (determine_risk cs))) =
     (if \<exists>r\<in>set cs. item_status r = Infected \<or> item_status r = Blacklisted
        then (Critical, danger)
      else if length (filter (\<lambda>r. item_status r = Fail) cs) \<ge> 2 then (High, danger)
      else if length (filter (\<lambda>r. item_status r = Fail) cs) = 1
              \<or> length (filter (\<lambda>r. item_status r = Warn) cs) \<ge> 3 then (Medium, warning)
      else if \<exists>r\<in>set cs. item_status r = Warn then (Low, warning)
      else (Minimal, good))"
  by (auto simp: determine_risk_def Let_def filter_empty_conv length_greater_0_conv)

lemma scan_fields:
  "securityRisk (scan env u)
     = fst (determine_risk (malwareAndSecurityDetails (scan env u) @ blacklistStatusDetails (scan env u)))"
  "overallStatusSeverity (scan env u)
     = fst (snd (determine_risk (malwareAndSecurityDetails (scan env u) @ blacklistStatusDetails (scan env u))))"
  by (simp_all add: scan_def Let_def split: prod.splits)


lemma handler_ScanOkD:
  assumes "security_scan_handler env method url = ScanOk p"
  obtains u where "method = ''POST''" "url = Some u" "scan_is_url env u" "p = scan env u"
  using assms
  by (auto simp: security_scan_handler_def split: if_splits option.splits)

text \<open>
  C3. In every successful scan response, over the malware-and-security list followed by
  the blacklist list: an item that is infected or blacklisted gives risk Critical with
  severity danger; otherwise two or more failed items give High and danger; otherwise
  exactly one failed item or three or more warnings give Medium and warning; otherwise a
  warning gives Low and warning; otherwise the risk is Minimal and the severity good.
\<close>

theorem risk_thresholds:
  assumes "security_scan_handler env method url = ScanOk p"
  shows "let allChecks = malwareAndSecurityDetails p @ blacklistStatusDetails p;
             fails = length (filter (\<lambda>r. item_status r = Fail) allChecks);
             warns = length (filter (\<lambda>r. item_status r = Warn) allChecks)
         in (securityRisk p, overallStatusSeverity p) =
              (if \<exists>r\<in>set allChecks. item_status r = Infected \<or> item_status r = Blacklisted
                 then (Critical, danger)
               else if fails \<ge> 2 then (High, danger)
               else if fails = 1 \<or> warns \<ge> 3 then (Medium, warning)
               else if \<exists>r\<in>set allChecks. item_status r = Warn then (Low, warning)
               else (Minimal, good))"
proof -
  from assms obtain u where p: "p = scan env u"
    by (rule handler_ScanOkD)
  show ?thesis
    unfolding Let_def p scan_fields by (rule determine_risk_spec)
qed

lemma ex_scan_malware:
  "security_scan_handler ex_scan_env ''POST'' (Some ''https://malwareexample.com'')
     = ScanOk (scan ex_scan_env ''https://malwareexample.com'')"
  by (simp add: security_scan_handler_def ex_scan_env_def startsWith_def)

lemma ex_scan_malware_lists:
  "map item_status (malwareAndSecurityDetails (scan ex_scan_env ''https://malwareexample.com''))
     = [Pass, Pass, Warn, Infected]"
  "map item_status (blacklistStatusDetails (scan ex_scan_env ''https://malwareexample.com''))
     = [Blacklisted]"
  by (simp_all add: scan_def Let_def https_check_def header_checks_def mock_checks_def
      ex_scan_env_def startsWith_def createCheckItem_def truthy_def split: prod.splits)


theorem risk_thresholds_witness:
  "security_scan_handler ex_scan_env ''POST'' (Some ''https://malwareexample.com'')
     = ScanOk (scan ex_scan_env ''https://malwareexample.com'')
   \<and> map item_status (malwareAndSecurityDetails (scan ex_scan_env ''https://malwareexample.com''))
       = [Pass, Pass, Warn, Infected]
   \<and> map item_status (blacklistStatusDetails (scan ex_scan_env ''https://malwareexample.com''))
       = [Blacklisted]
   \<and> securityRisk (scan ex_scan_env ''https://malwareexample.com'') = Critical
   \<and> overallStatusSeverity (scan ex_scan_env ''https://malwareexample.com'') = danger"
proof -
  let ?S = "scan ex_scan_env ''https://malwareexample.com''"
  have "Blacklisted \<in> set (map item_status (blacklistStatusDetails ?S))"
    unfolding ex_scan_malware_lists by simp
  then obtain r where "r \<in> set (blacklistStatusDetails ?S)" "item_status r = Blacklisted"
    by auto
  then have ex: "\<exists>r\<in>set (malwareAndSecurityDetails ?S @ blacklistStatusDetails ?S).
      item_status r = Infected \<or> item_status r = Blacklisted"
    by (intro bexI [of _ r]) simp_all
  from risk_thresholds [OF ex_scan_malware, unfolded Let_def] ex
  have "(securityRisk ?S, overallStatusSeverity ?S) = (Critical, danger)"
    by (simp only: if_True)
  then show ?thesis
    using ex_scan_malware ex_scan_malware_lists by simp
qed

lemma fail_risk:
  assumes "\<exists>r\<in>set cs. item_status r = Fail"
  shows "fst (determine_risk cs) \<in> {Medium, High, Critical}"
proof -
  from assms have "filter (\<lambda>r. item_status r = Fail) cs \<noteq> []"
    by (simp add: filter_empty_conv)
  then have "length (filter (\<lambda>r. item_status r = Fail) cs) \<ge> 1"
    by (cases "filter (\<lambda>r. item_status r = Fail) cs") simp_all
  then show ?thesis
    by (auto simp: determine_risk_def Let_def)
qed

text \<open>
  C10. For a URL that the validator accepts and whose protocol is not \<open>https:\<close>, the scan
  answers with a payload whose first check is the failed HTTPS Usage item, so its risk is
  Medium, High or Critical, never Minimal or Low.
\<close>

theorem non_https_risk:
  assumes "scan_is_url env u" and "URL_protocol env u = Some protocol"
    and "protocol \<noteq> ''https:''"
  shows "security_scan_handler env ''POST'' (Some u) = ScanOk (scan env u)
       \<and> hd (malwareAndSecurityDetails (scan env u)) =
           createCheckItem ''HTTPS Usage'' Fail
             (Some ''Site is not using HTTPS! This is a critical security vulnerability.'')
             None False
       \<and> (\<exists>i\<in>set (malwareAndSecurityDetails (scan env u)).
             item_check i = Some ''HTTPS Usage'' \<and> item_status i = Fail)
       \<and> securityRisk (scan env u) \<in> {Medium, High, Critical}
       \<and> securityRisk (scan env u) \<noteq> Minimal \<and> securityRisk (scan env u) \<noteq> Low"
proof -
  have h: "security_scan_handler env ''POST'' (Some u) = ScanOk (scan env u)"
    using assms(1) by (simp add: security_scan_handler_def)
  have c: "https_check env u = createCheckItem ''HTTPS Usage'' Fail
             (Some ''Site is not using HTTPS! This is a critical security vulnerability.'')
             None False"
    using assms(2,3) by (simp add: https_check_def)
  have m: "malwareAndSecurityDetails (scan env u)
      = https_check env u # header_checks env u @ fst (mock_checks u)"
    by (simp add: scan_def Let_def split: prod.splits)
  have f: "item_check (https_check env u) = Some ''HTTPS Usage''"
    "item_status (https_check env u) = Fail"
    unfolding c by (simp_all add: createCheckItem_def)
  have i: "\<exists>i\<in>set (malwareAndSecurityDetails (scan env u)).
      item_check i = Some ''HTTPS Usage'' \<and> item_status i = Fail"
    unfolding m using f by simp
  then have "\<exists>r\<in>set (malwareAndSecurityDetails (scan env u) @ blacklistStatusDetails (scan env u)).
      item_status r = Fail"
    by auto
  then have r: "securityRisk (scan env u) \<in> {Medium, High, Critical}"
    unfolding scan_fields by (rule fail_risk)
  then have "securityRisk (scan env u) \<noteq> Minimal \<and> securityRisk (scan env u) \<noteq> Low"
    by auto
  with h c m i r show ?thesis
    by simp
qed

theorem non_https_risk_witness:
  "scan_is_url ex_scan_env ''http://example.com''
   \<and> URL_protocol ex_scan_env ''http://example.com'' = Some ''http:''
   \<and> ''http:'' \<noteq> ''https:''
   \<and> security_scan_handler ex_scan_env ''POST'' (Some ''http://example.com'')
       = ScanOk (scan ex_scan_env ''http://example.com'')
   \<and> securityRisk (scan ex_scan_env ''http://example.com'') \<in> {Medium, High, Critical}
   \<and> securityRisk (scan ex_scan_env ''http://example.com'') \<noteq> Minimal
   \<and> securityRisk (scan ex_scan_env ''http://example.com'') \<noteq> Low"
proof -
  have h: "scan_is_url ex_scan_env ''http://example.com''"
    "URL_protocol ex_scan_env ''http://example.com'' = Some ''http:''"
    "''http:'' \<noteq> ''https:''"
    by (simp_all add: ex_scan_env_def startsWith_def)
  show ?thesis
    using non_https_risk [OF h] h by blast
qed


section \<open>Properties of the form handlers\<close>

text \<open>
  C4, as stated, fails for the analysis form: the text \<open>example.com\<close> does not start with
  \<open>https://\<close>, and the handler of the analysis form sets a form error for it and sends no
  request.
\<close>

theorem analysis_form_rejects_bare_url:
  "\<not> startsWith ''example.com'' ''https://''
   \<and> HomePage_handleSubmit ''example.com''
       = FormError ''URL must start with http:// or https://''
   \<and> posts (HomePage_handleSubmit ''example.com'') = []"
  by (simp add: HomePage_handleSubmit_def trim_def is_ws_def startsWith_def)

text \<open>
  C4, amended. A URL text that is empty once trimmed is rejected by both form handlers
  with a form error. For a text whose trimmed form is not empty: when it starts with
  neither \<open>http://\<close> nor \<open>https://\<close>, the form handler of the security checker puts
  \<open>https://\<close> in front of the trimmed text and posts that to the scan, and the handler of
  the analysis form rejects it with a form error and sends nothing; when it starts with one
  of the two prefixes, both handlers submit the trimmed text unchanged.
\<close>

theorem https_prefix_handling:
  "(trim url = [] \<longrightarrow>
      SecurityCheckerPage_handleSubmit url = FormError ''Please enter a website URL to scan.''
      \<and> HomePage_handleSubmit url = FormError ''Please enter a URL.'')
   \<and> (trim url \<noteq> [] \<and> \<not> startsWith (trim url) ''http://''
        \<and> \<not> startsWith (trim url) ''https://'' \<longrightarrow>
      SecurityCheckerPage_handleSubmit url =
        Posted [\<lparr>post_path = ''/api/security-scan'', post_url = ''https://'' @ trim url,
                 post_strategy = None\<rparr>]
      \<and> HomePage_handleSubmit url = FormError ''URL must start with http:// or https://'')
   \<and> (trim url \<noteq> []
        \<and> (startsWith (trim url) ''http://'' \<or> startsWith (trim url) ''https://'') \<longrightarrow>
      SecurityCheckerPage_handleSubmit url =
        Posted [\<lparr>post_path = ''/api/security-scan'', post_url = trim url,
                 post_strategy = None\<rparr>]
      \<and> HomePage_handleSubmit url =
        Posted [\<lparr>post_path = ''/api/analyze'', post_url = trim url,
                 post_strategy = Some ''mobile''\<rparr>,
                \<lparr>post_path = ''/api/analyze'', post_url = trim url,
                 post_strategy = Some ''desktop''\<rparr>])"
  by (auto simp: SecurityCheckerPage_handleSubmit_def HomePage_handleSubmit_def Let_def
      analyzeStrategy_def)

lemma ex_trim:
  "trim ('' example.com'' @ [CHR 0xA0]) = ''example.com''"
  "trim ''http://example.com'' = ''http://example.com''"
  "trim [CHR 0xA0, CHR '' '', CHR 0x09] = []"
  by (simp_all add: trim_def is_ws_def)

theorem https_prefix_handling_witness:
  "trim ('' example.com'' @ [CHR 0xA0]) \<noteq> []
   \<and> \<not> startsWith (trim ('' example.com'' @ [CHR 0xA0])) ''http://''
   \<and> \<not> startsWith (trim ('' example.com'' @ [CHR 0xA0])) ''https://''
   \<and> SecurityCheckerPage_handleSubmit ('' example.com'' @ [CHR 0xA0]) =
        Posted [\<lparr>post_path = ''/api/security-scan'', post_url = ''https://example.com'',
                 post_strategy = None\<rparr>]
   \<and> HomePage_handleSubmit ('' example.com'' @ [CHR 0xA0])
        = FormError ''URL must start with http:// or https://''
   \<and> trim ''http://example.com'' \<noteq> []
   \<and> (startsWith (trim ''http://example.com'') ''http://''
        \<or> startsWith (trim ''http://example.com'') ''https://'')
   \<and> SecurityCheckerPage_handleSubmit ''http://example.com'' =
        Posted [\<lparr>post_path = ''/api/security-scan'', post_url = ''http://example.com'',
                 post_strategy = None\<rparr>]
   \<and> HomePage_handleSubmit ''http://example.com'' =
        Posted [\<lparr>post_path = ''/api/analyze'', post_url = ''http://example.com'',
                 post_strategy = Some ''mobile''\<rparr>,
                \<lparr>post_path = ''/api/analyze'', post_url = ''http://example.com'',
                 post_strategy = Some ''desktop''\<rparr>]
   \<and> trim [CHR 0xA0, CHR '' '', CHR 0x09] = []
   \<and> SecurityCheckerPage_handleSubmit [CHR 0xA0, CHR '' '', CHR 0x09]
        = FormError ''Please enter a website URL to scan.''
   \<and> HomePage_handleSubmit [CHR 0xA0, CHR '' '', CHR 0x09] = FormError ''Please enter a URL.''"
proof -
  have a1: "trim ('' example.com'' @ [CHR 0xA0]) \<noteq> []"
    and a2: "\<not> startsWith (trim ('' example.com'' @ [CHR 0xA0])) ''http://''"
    and a3: "\<not> startsWith (trim ('' example.com'' @ [CHR 0xA0])) ''https://''"
    unfolding ex_trim by (simp_all add: startsWith_def)
  have b1: "trim ''http://example.com'' \<noteq> []"
    and b2: "startsWith (trim ''http://example.com'') ''http://''
        \<or> startsWith (trim ''http://example.com'') ''https://''"
    unfolding ex_trim by (simp_all add: startsWith_def)
  note c1 = ex_trim(3)
  note A = https_prefix_handling [of "'' example.com'' @ [CHR 0xA0]",
      THEN conjunct2, THEN conjunct1, THEN mp, OF conjI [OF a1 conjI [OF a2 a3]]]
  note B = https_prefix_handling [of "''http://example.com''",
      THEN conjunct2, THEN conjunct2, THEN mp, OF conjI [OF b1 b2]]
  note C = https_prefix_handling [of "[CHR 0xA0, CHR '' '', CHR 0x09]",
      THEN conjunct1, THEN mp, OF c1]
  have A1: "SecurityCheckerPage_handleSubmit ('' example.com'' @ [CHR 0xA0]) =
        Posted [\<lparr>post_path = ''/api/security-scan'', post_url = ''https://example.com'',
                 post_strategy = None\<rparr>]"
    using A [THEN conjunct1] unfolding ex_trim by simp
  have A2: "HomePage_handleSubmit ('' example.com'' @ [CHR 0xA0])
        = FormError ''URL must start with http:// or https://''"
    by (rule A [THEN conjunct2])
  have B1: "SecurityCheckerPage_handleSubmit ''http://example.com'' =
        Posted [\<lparr>post_path = ''/api/security-scan'', post_url = ''http://example.com'',
                 post_strategy = None\<rparr>]"
    using B [THEN conjunct1] unfolding ex_trim .
  have B2: "HomePage_handleSubmit ''http://example.com'' =
        Posted [\<lparr>post_path = ''/api/analyze'', post_url = ''http://example.com'',
                 post_strategy = Some ''mobile''\<rparr>,
                \<lparr>post_path = ''/api/analyze'', post_url = ''http://example.com'',
                 post_strategy = Some ''desktop''\<rparr>]"
    using B [THEN conjunct2] unfolding ex_trim .
  show ?thesis
    by (intro conjI)
      (rule a1 a2 a3 b1 b2 c1 A1 A2 B1 B2 C [THEN conjunct1] C [THEN conjunct2])+
qed

section \<open>Properties of the report history\<close>

lemma findMany_length: "length (findMany u t) \<le> 20"
  by (simp add: findMany_def)

lemma findMany_set: "set (findMany u t) \<subseteq> {r \<in> set t. rep_userId r = u}"
proof -
  have "set (findMany u t) \<subseteq> set (rev (sort_key createdAt (filter (\<lambda>r. rep_userId r = u) t)))"
    unfolding findMany_def by (rule set_take_subset)
  then show ?thesis by auto
qed

lemma desc_sorted_rev_sort:
  "sorted_wrt (\<lambda>a b. createdAt a \<ge> createdAt b) (rev (sort_key createdAt xs))"
proof -
  have "sorted (map createdAt (sort_key createdAt xs))"
    by (rule sorted_sort_key)
  then have "sorted_wrt (\<lambda>a b. createdAt a \<le> createdAt b) (sort_key createdAt xs)"
    by (simp add: sorted_wrt_map)
  then show ?thesis
    by (simp add: sorted_wrt_rev)
qed

lemma findMany_sorted: "sorted_wrt (\<lambda>a b. createdAt a \<ge> createdAt b) (findMany u t)"
  unfolding findMany_def by (rule sorted_wrt_take) (rule desc_sorted_rev_sort)

lemma findMany_most_recent:
  assumes "r \<in> set (findMany u t)" and "r' \<in> set t" and "rep_userId r' = u"
    and "r' \<notin> set (findMany u t)"
  shows "createdAt r' \<le> createdAt r"
proof -
  let ?L = "rev (sort_key createdAt (filter (\<lambda>r. rep_userId r = u) t))"
  have s: "sorted_wrt (\<lambda>a b. createdAt a \<ge> createdAt b) (take 20 ?L @ drop 20 ?L)"
    using desc_sorted_rev_sort [of "filter (\<lambda>r. rep_userId r = u) t"] by simp
  have "r' \<in> set ?L"
    using assms(2,3) by simp
  then have "r' \<in> set (take 20 ?L) \<union> set (drop 20 ?L)"
    by (metis append_take_drop_id set_append)
  with assms(4) have "r' \<in> set (drop 20 ?L)"
    by (simp add: findMany_def)
  moreover have "r \<in> set (take 20 ?L)"
    using assms(1) by (simp add: findMany_def)
  ultimately show ?thesis
    using s unfolding sorted_wrt_append by blast
qed

text \<open>
  C5. A GET request for the report history without a valid identity (no session, no user,
  or a missing or empty user id) is answered with 401 and no report row. With a valid
  identity the response holds at most 20 rows, all owned by that identity, the most recent
  first; when the query succeeds the status is 200, the rows come from the table, and no
  row of that identity left out is more recent than a row returned.
\<close>

theorem reports_access:
  assumes "method = ''GET''"
  shows "(\<not> truthy (session_userId (reports_session env)) \<longrightarrow>
            reports_handler env method = Unauthorized
            \<and> reports_status (reports_handler env method) = 401
            \<and> reports_rows (reports_handler env method) = [])
       \<and> (\<forall>uid. session_userId (reports_session env) = Some uid \<and> uid \<noteq> [] \<longrightarrow>
            length (reports_rows (reports_handler env method)) \<le> 20
            \<and> (\<forall>r\<in>set (reports_rows (reports_handler env method)). rep_userId r = uid)
            \<and> sorted_wrt (\<lambda>a b. createdAt a \<ge> createdAt b)
                 (reports_rows (reports_handler env method))
            \<and> (\<forall>table. report_table env = Returns table \<longrightarrow>
                 reports_status (reports_handler env method) = 200
                 \<and> set (reports_rows (reports_handler env method)) \<subseteq> set table
                 \<and> (\<forall>r\<in>set (reports_rows (reports_handler env method)).
                      \<forall>r'\<in>set table. rep_userId r' = uid
                        \<and> r' \<notin> set (reports_rows (reports_handler env method))
                        \<longrightarrow> createdAt r' \<le> createdAt r)))"
proof -
  have 1: "reports_handler env method = Unauthorized"
    if "\<not> truthy (session_userId (reports_session env))"
    using that assms by (auto simp: reports_handler_def truthy_def split: option.splits)
  have 2: "reports_rows (reports_handler env method) =
      (case report_table env of Returns table \<Rightarrow> findMany uid table | Throws m \<Rightarrow> [])"
    "report_table env = Returns table \<Longrightarrow> reports_status (reports_handler env method) = 200"
    if "session_userId (reports_session env) = Some uid" "uid \<noteq> []" for uid table
    using that assms by (auto simp: reports_handler_def split: outcome.splits)
  have 3: "length (reports_rows (reports_handler env method)) \<le> 20
            \<and> (\<forall>r\<in>set (reports_rows (reports_handler env method)). rep_userId r = uid)
            \<and> sorted_wrt (\<lambda>a b. createdAt a \<ge> createdAt b)
                 (reports_rows (reports_handler env method))"
    if "session_userId (reports_session env) = Some uid" "uid \<noteq> []" for uid
    unfolding 2(1) [OF that]
    using findMany_length findMany_set findMany_sorted
    by (cases "report_table env") (auto simp: subset_iff)
  have 4: "set (reports_rows (reports_handler env method)) \<subseteq> set table
          \<and> (\<forall>r\<in>set (reports_rows (reports_handler env method)).
                \<forall>r'\<in>set table. rep_userId r' = uid
                  \<and> r' \<notin> set (reports_rows (reports_handler env method))
                  \<longrightarrow> createdAt r' \<le> createdAt r)"
    if "session_userId (reports_session env) = Some uid" "uid \<noteq> []"
      "report_table env = Returns table" for uid table
    unfolding 2(1) [OF that(1,2)] that(3)
    using findMany_set [of uid table] findMany_most_recent [of _ uid table]
    by auto
  show ?thesis
    using 1 2(2) 3 4 by (simp add: 1) 
qed


lemma ex_reports:
  "reports_handler ex_reports_env ''GET''
     = ReportsOk [ex_row ''r3'' ''user-1'' 30, ex_row ''r1'' ''user-1'' 10]"
  by (simp add: reports_handler_def ex_reports_env_def session_userId_def ex_session_def
      findMany_def ex_table_def ex_row_def)

theorem reports_access_witness:
  "\<not> truthy (session_userId (reports_session ex_anonymous_env))
   \<and> reports_handler ex_anonymous_env ''GET'' = Unauthorized
   \<and> reports_status (reports_handler ex_anonymous_env ''GET'') = 401
   \<and> reports_rows (reports_handler ex_anonymous_env ''GET'') = []
   \<and> session_userId (reports_session ex_reports_env) = Some ''user-1'' \<and> ''user-1'' \<noteq> []
   \<and> report_table ex_reports_env = Returns ex_table
   \<and> reports_rows (reports_handler ex_reports_env ''GET'')
       = [ex_row ''r3'' ''user-1'' 30, ex_row ''r1'' ''user-1'' 10]
   \<and> reports_status (reports_handler ex_reports_env ''GET'') = 200
   \<and> length (reports_rows (reports_handler ex_reports_env ''GET'')) \<le> 20
   \<and> map rep_userId (reports_rows (reports_handler ex_reports_env ''GET''))
       = [''user-1'', ''user-1'']
   \<and> sorted_wrt (\<lambda>a b. createdAt a \<ge> createdAt b)
        (reports_rows (reports_handler ex_reports_env ''GET''))"
proof -
  have a: "\<not> truthy (session_userId (reports_session ex_anonymous_env))"
    by (simp add: ex_anonymous_env_def session_userId_def truthy_def)
  have u: "session_userId (reports_session ex_reports_env) = Some ''user-1'' \<and> ''user-1'' \<noteq> []"
    "report_table ex_reports_env = Returns ex_table"
    by (simp_all add: ex_reports_env_def session_userId_def ex_session_def)
  have g: "''GET'' = ''GET''"
    by simp
  from reports_access [OF g, of ex_anonymous_env] a
  have 1: "reports_handler ex_anonymous_env ''GET'' = Unauthorized
    \<and> reports_status (reports_handler ex_anonymous_env ''GET'') = 401
    \<and> reports_rows (reports_handler ex_anonymous_env ''GET'') = []"
    by blast
  from reports_access [OF g, of ex_reports_env] u
  have 2: "length (reports_rows (reports_handler ex_reports_env ''GET'')) \<le> 20
    \<and> (\<forall>r\<in>set (reports_rows (reports_handler ex_reports_env ''GET'')). rep_userId r = ''user-1'')
    \<and> sorted_wrt (\<lambda>a b. createdAt a \<ge> createdAt b)
        (reports_rows (reports_handler ex_reports_env ''GET''))
    \<and> reports_status (reports_handler ex_reports_env ''GET'') = 200"
    by blast
  have 3: "reports_rows (reports_handler ex_reports_env ''GET'')
       = [ex_row ''r3'' ''user-1'' 30, ex_row ''r1'' ''user-1'' 10]"
    unfolding ex_reports by simp
  have 4: "map rep_userId (reports_rows (reports_handler ex_reports_env ''GET''))
       = [''user-1'', ''user-1'']"
    unfolding 3 by (simp add: ex_row_def)
  show ?thesis
    using a u 1 2 3 4 by blast
qed


end
